theory Spec2Isabelle
  imports Main "HOL-Library.Word"
begin

section \<open>Shared data\<close>

text \<open>
  Identifiers are \<open>uint64\<close>, priorities \<open>uint32\<close>. A \<open>time.Duration\<close> is only passed
  through, so it is an integer. A Go slice is \<open>None\<close> when it is \<open>nil\<close> and \<open>Some xs\<close>
  otherwise: the source compares a body with \<open>nil\<close>, and a zero-length slice is not \<open>nil\<close>.
\<close>

type_synonym id = "64 word"
type_synonym priority = "32 word"
type_synonym duration = int
type_synonym bytes = "8 word list"

text \<open>
  Modelled from the spec: the declaration of \<open>common.Task\<close> is not among the sources.
  Section 3 gives its fields: a broker-assigned 64-bit identifier, a name and an opaque
  payload.
\<close>

record Task =
  Id_of :: id
  Name :: string
  Payload :: "bytes option"

text \<open>
  Modelled from the spec: \<open>common.TaskProcessEvent\<close> and its event identifiers are not
  among the sources. The consumer reads \<open>EventId\<close> and \<open>Task\<close>; section 3 gives the four
  kinds and the free-form result carried by a Progress event.
\<close>

datatype EventType = Progress | Success | Error | Heartbeat

record TaskProcessEvent =
  EventId :: EventType
  Task :: Task
  Result :: "string list"

text \<open>
  A Go \<open>error\<close>. The errors built by package \<open>log\<close> are one constructor each; an error
  that comes from outside (the broker connection, the JSON decoder, a task handler) is
  \<open>External\<close> with the text its \<open>Error()\<close> method returns, which is all the code reads.
\<close>

datatype err =
    External string
  | MissingConsumerHandlerError
  | MissingTaskPayloadHandlerError
  | RegisteredTaskHandlerError string
  | EmptyReserveTaskPayloadError id
  | InvalidReserveTaskPayloadError id err
  | TaskThreadError string err
  | WorkerWaitTimeoutError duration

text \<open>A call either returns or panics.\<close>

datatype 'a res = Returned 'a | Panicked

section \<open>Observable effects\<close>

datatype log_entry =
    LogError err
  | LogConsumerStarted
  | LogConsumerStopping
  | LogConsumerEnded
  | LogConsumerReserve duration
  | LogConsumerRelease id priority duration
  | LogConsumerDelete id
  | LogConsumerBury id priority
  | LogConsumerTouch id
  | LogConsumerClose
  | LogConsumerReserveTimeout duration
  | LogConsumerHeartbeat duration
  | LogTaskProcessEvent EventType string
  | LogWorkerStarted
  | LogWorkerStopping
  | LogWorkerEnded
  | LogTaskPre string int
  | LogTaskPost string int
  | LogThreadHeartbeat int duration
  | LogTaskResult string "string list"
  | LogTaskSuccess string
  | LogTaskHeartbeat string
  | LogTaskThreadsStopping int

text \<open>The calls of the broker interface \<open>consumer.Handler\<close>.\<close>

datatype broker_call =
    ReserveCall duration
  | ReleaseCall id priority duration
  | DeleteCall id
  | BuryCall id priority
  | TouchCall id
  | CloseCall

text \<open>The calls of the two lifecycle interfaces, \<open>consumer.EventHandler\<close> and
  \<open>worker.EventHandler\<close>.\<close>

datatype lifecycle =
    StartConsume
  | EndConsume
  | ReserveTimeout
  | ConsumerHeartbeat
  | StartWorker
  | EndWorker
  | PreTask Task
  | PostTask Task
  | ThreadHeartbeat int

text \<open>The calls of the outcome interface \<open>common.TaskProcessEventHandler\<close>.\<close>

datatype sink_call =
    TaskResult Task "string list"
  | TaskSuccess Task
  | TaskHeartbeat Task
  | TaskError Task err

text \<open>
  Everything a routine does that another party can see, in order: a log line, a call
  that reached the broker connection, a call that reached a configured lifecycle sink, a
  call that reached the configured outcome sink, a task handed to the payload intake, the
  construction of a task handler, its execution, and the acknowledgment written on a quit
  channel.
\<close>

datatype effect =
    Logged log_entry
  | Broker broker_call
  | Signal lifecycle
  | Outcome sink_call
  | Handoff Task
  | Constructed string
  | Handled Task
  | QuitAck

definition broker_calls :: "effect list \<Rightarrow> broker_call list" where
  "broker_calls tr = concat (map (\<lambda>e. case e of Broker c \<Rightarrow> [c] | _ \<Rightarrow> []) tr)"

definition handoffs :: "effect list \<Rightarrow> Task list" where
  "handoffs tr = concat (map (\<lambda>e. case e of Handoff t \<Rightarrow> [t] | _ \<Rightarrow> []) tr)"

definition signals :: "effect list \<Rightarrow> lifecycle list" where
  "signals tr = concat (map (\<lambda>e. case e of Signal s \<Rightarrow> [s] | _ \<Rightarrow> []) tr)"

definition outcomes :: "effect list \<Rightarrow> sink_call list" where
  "outcomes tr = concat (map (\<lambda>e. case e of Outcome c \<Rightarrow> [c] | _ \<Rightarrow> []) tr)"

definition logged :: "effect list \<Rightarrow> log_entry list" where
  "logged tr = concat (map (\<lambda>e. case e of Logged l \<Rightarrow> [l] | _ \<Rightarrow> []) tr)"

section \<open>Channels\<close>

text \<open>
  A channel value: its buffer capacity, what is buffered, whether it is closed.
  \<open>make(chan T, n)\<close> panics when \<open>n\<close> is negative. Memory exhaustion is not modelled.
\<close>

record 'a chan =
  capacity :: nat
  buffer :: "'a list"
  closed :: bool

definition make_chan :: "int \<Rightarrow> 'a chan res" where
  "make_chan n =
     (if n < 0 then Panicked
      else Returned \<lparr>capacity = nat n, buffer = [], closed = False\<rparr>)"

section \<open>Consumer\<close>

record Consumer_Configuration =
  WaitForConsumerReserve :: duration
  Consumer_Heartbeat :: duration
  ReleasePriority :: priority
  ReleaseDelay :: duration
  BuryPriority :: priority

text \<open>
  The broker connection is an object behind the interface \<open>Handler\<close>: each method reads
  and changes the connection's own state \<open>'b\<close> and returns its results. An error it
  returns is given by its text.
\<close>

record 'b Handler =
  hReserve :: "duration \<Rightarrow> 'b \<Rightarrow> (id \<times> bytes option \<times> string option) \<times> 'b"
  hRelease :: "id \<Rightarrow> priority \<Rightarrow> duration \<Rightarrow> 'b \<Rightarrow> string option \<times> 'b"
  hDelete :: "id \<Rightarrow> 'b \<Rightarrow> string option \<times> 'b"
  hBury :: "id \<Rightarrow> priority \<Rightarrow> 'b \<Rightarrow> string option \<times> 'b"
  hTouch :: "id \<Rightarrow> 'b \<Rightarrow> string option \<times> 'b"
  hClose :: "'b \<Rightarrow> string option \<times> 'b"

text \<open>
  The fields of \<open>Consumer\<close>. An interface field the source tests against \<open>nil\<close> is an
  option. The lifecycle sink and the payload intake are external objects whose calls
  return nothing, so only their presence is kept and their calls are recorded.
\<close>

record 'b Consumer =
  handler :: "'b Handler option"
  eventHandler :: bool
  taskPayloadHandler :: bool
  config :: Consumer_Configuration
  taskEventChannel :: "TaskProcessEvent chan"
  quitChannel :: "bool chan"

record 'b world =
  broker :: 'b
  trace :: "effect list"

definition emit :: "effect \<Rightarrow> 'b world \<Rightarrow> 'b world" where
  "emit e w = w\<lparr>trace := trace w @ [e]\<rparr>"

text \<open>\<open>ErrTimeout\<close> is \<open>errors.New("timeout")\<close>; the loop compares error texts.\<close>

definition ErrTimeout :: string where
  "ErrTimeout = ''timeout''"

definition Reserve ::
  "'b Consumer \<Rightarrow> duration \<Rightarrow> 'b world \<Rightarrow> (id \<times> bytes option \<times> string option) \<times> 'b world" where
  "Reserve con timeout w =
     (let w1 = emit (Logged (LogConsumerReserve timeout)) w in
      case handler con of
        Some h \<Rightarrow>
          (let (r, b) = hReserve h timeout (broker w1)
           in (r, emit (Broker (ReserveCall timeout)) (w1\<lparr>broker := b\<rparr>)))
      | None \<Rightarrow> ((0, None, None), w1))"

definition Release ::
  "'b Consumer \<Rightarrow> id \<Rightarrow> priority \<Rightarrow> duration \<Rightarrow> 'b world \<Rightarrow> string option \<times> 'b world" where
  "Release con i pri delay w =
     (let w1 = emit (Logged (LogConsumerRelease i pri delay)) w in
      case handler con of
        Some h \<Rightarrow>
          (let (r, b) = hRelease h i pri delay (broker w1)
           in (r, emit (Broker (ReleaseCall i pri delay)) (w1\<lparr>broker := b\<rparr>)))
      | None \<Rightarrow> (None, w1))"

definition Delete :: "'b Consumer \<Rightarrow> id \<Rightarrow> 'b world \<Rightarrow> string option \<times> 'b world" where
  "Delete con i w =
     (let w1 = emit (Logged (LogConsumerDelete i)) w in
      case handler con of
        Some h \<Rightarrow>
          (let (r, b) = hDelete h i (broker w1)
           in (r, emit (Broker (DeleteCall i)) (w1\<lparr>broker := b\<rparr>)))
      | None \<Rightarrow> (None, w1))"

definition Bury :: "'b Consumer \<Rightarrow> id \<Rightarrow> priority \<Rightarrow> 'b world \<Rightarrow> string option \<times> 'b world" where
  "Bury con i pri w =
     (let w1 = emit (Logged (LogConsumerBury i pri)) w in
      case handler con of
        Some h \<Rightarrow>
          (let (r, b) = hBury h i pri (broker w1)
           in (r, emit (Broker (BuryCall i pri)) (w1\<lparr>broker := b\<rparr>)))
      | None \<Rightarrow> (None, w1))"

definition Touch :: "'b Consumer \<Rightarrow> id \<Rightarrow> 'b world \<Rightarrow> string option \<times> 'b world" where
  "Touch con i w =
     (let w1 = emit (Logged (LogConsumerTouch i)) w in
      case handler con of
        Some h \<Rightarrow>
          (let (r, b) = hTouch h i (broker w1)
           in (r, emit (Broker (TouchCall i)) (w1\<lparr>broker := b\<rparr>)))
      | None \<Rightarrow> (None, w1))"

definition Close :: "'b Consumer \<Rightarrow> 'b world \<Rightarrow> string option \<times> 'b world" where
  "Close con w =
     (let w1 = emit (Logged LogConsumerClose) w in
      case handler con of
        Some h \<Rightarrow>
          (let (r, b) = hClose h (broker w1)
           in (r, emit (Broker CloseCall) (w1\<lparr>broker := b\<rparr>)))
      | None \<Rightarrow> (None, w1))"

definition OnStartConsume :: "'b Consumer \<Rightarrow> 'b world \<Rightarrow> 'b world" where
  "OnStartConsume con w =
     (let w1 = emit (Logged LogConsumerStarted) w in
      if eventHandler con then emit (Signal StartConsume) w1 else w1)"

definition OnEndConsume :: "'b Consumer \<Rightarrow> 'b world \<Rightarrow> 'b world" where
  "OnEndConsume con w =
     (let w1 = emit (Logged LogConsumerEnded) w in
      if eventHandler con then emit (Signal EndConsume) w1 else w1)"

definition OnReserveTimeout :: "'b Consumer \<Rightarrow> 'b world \<Rightarrow> 'b world" where
  "OnReserveTimeout con w =
     (let w1 = emit (Logged (LogConsumerReserveTimeout (WaitForConsumerReserve (config con)))) w in
      if eventHandler con then emit (Signal ReserveTimeout) w1 else w1)"

definition OnHeartbeat :: "'b Consumer \<Rightarrow> 'b world \<Rightarrow> 'b world" where
  "OnHeartbeat con w =
     (let w1 = emit (Logged (LogConsumerHeartbeat (Consumer_Heartbeat (config con)))) w in
      if eventHandler con then emit (Signal ConsumerHeartbeat) w1 else w1)"

subsection \<open>Decoding a reserved job\<close>

text \<open>
  Modelled from the spec: \<open>json.Unmarshal(body, task)\<close> fills a \<open>common.Task\<close>, whose
  declaration (and so its wire fields) is not among the sources. Section 6: the byte
  payload decodes to a name and an opaque payload; the identifier is not carried. The
  decoder of the wire format is a parameter: it gives the two wire fields or the text of
  its error. An input of no bytes is not a JSON text for any decoder.
\<close>

record wire =
  wire_Name :: string
  wire_Payload :: "bytes option"

type_synonym decoder = "bytes \<Rightarrow> string + wire"

definition Unmarshal :: "decoder \<Rightarrow> bytes \<Rightarrow> Task \<Rightarrow> string + Task" where
  "Unmarshal dec body task =
     (if body = [] then Inl ''unexpected end of JSON input''
      else case dec body of
        Inl m \<Rightarrow> Inl m
      | Inr wr \<Rightarrow> Inr (task\<lparr>Name := wire_Name wr, Payload := wire_Payload wr\<rparr>))"

text \<open>
  \<open>handlePayload\<close>: the call on the payload intake is a call on a \<open>nil\<close> interface, a
  panic, when none is configured.
\<close>

definition handlePayload ::
  "decoder \<Rightarrow> 'b Consumer \<Rightarrow> id \<Rightarrow> bytes option \<Rightarrow> 'b world \<Rightarrow> err option res \<times> 'b world" where
  "handlePayload dec con i body w =
     (case body of
        None \<Rightarrow> (Returned (Some (EmptyReserveTaskPayloadError i)), w)
      | Some bs \<Rightarrow>
          (case Unmarshal dec bs \<lparr>Id_of = i, Name = [], Payload = None\<rparr> of
             Inl m \<Rightarrow> (Returned (Some (InvalidReserveTaskPayloadError i (External m))), w)
           | Inr task \<Rightarrow>
               if taskPayloadHandler con then (Returned None, emit (Handoff task) w)
               else (Panicked, w)))"

subsection \<open>The consume loop\<close>

text \<open>The first half of an iteration of \<open>handleConsume\<close>: reserve and hand off.\<close>

definition reserve_step :: "decoder \<Rightarrow> 'b Consumer \<Rightarrow> 'b world \<Rightarrow> unit res \<times> 'b world" where
  "reserve_step dec con w =
     (let ((i, body, e), w1) = Reserve con (WaitForConsumerReserve (config con)) w in
      case e of
        Some m \<Rightarrow>
          if m = ErrTimeout then (Returned (), OnReserveTimeout con w1)
          else (Returned (), emit (Logged (LogError (External m))) w1)
      | None \<Rightarrow>
          if i \<noteq> 0 then
            (case handlePayload dec con i body w1 of
               (Panicked, w2) \<Rightarrow> (Panicked, w2)
             | (Returned (Some e2), w2) \<Rightarrow> (Returned (), emit (Logged (LogError e2)) w2)
             | (Returned None, w2) \<Rightarrow> (Returned (), w2))
          else (Returned (), w1))"

text \<open>
  The second half: the \<open>select\<close>. Which case fires is the environment's choice and is
  an input. The result says whether the loop goes on.
\<close>

datatype select_case = Quit | Received TaskProcessEvent | HeartbeatElapsed

definition multiplex :: "'b Consumer \<Rightarrow> select_case \<Rightarrow> 'b world \<Rightarrow> bool \<times> 'b world" where
  "multiplex con sel w =
     (case sel of
        Quit \<Rightarrow> (False, emit QuitAck w)
      | Received ev \<Rightarrow>
          (let w1 = emit (Logged (LogTaskProcessEvent (EventId ev) (Name (Task ev)))) w;
               (e, w2) =
                 (case EventId ev of
                    Error \<Rightarrow> Bury con (Id_of (Task ev)) (BuryPriority (config con)) w1
                  | Success \<Rightarrow> Delete con (Id_of (Task ev)) w1
                  | Heartbeat \<Rightarrow> Touch con (Id_of (Task ev)) w1
                  | Progress \<Rightarrow> (None, w1))
           in (True, case e of Some m \<Rightarrow> emit (Logged (LogError (External m))) w2 | None \<Rightarrow> w2))
      | HeartbeatElapsed \<Rightarrow> (True, OnHeartbeat con w))"

text \<open>
  The loop, run against the select cases the environment supplies. It has exited after a
  quit, has crashed after a panic, and is otherwise still running when the supplied cases
  are used up.
\<close>

datatype loop_end = Exited | Crashed | Running

fun consume_loop ::
  "decoder \<Rightarrow> 'b Consumer \<Rightarrow> select_case list \<Rightarrow> 'b world \<Rightarrow> loop_end \<times> 'b world" where
  "consume_loop dec con [] w = (Running, w)"
| "consume_loop dec con (s # ss) w =
     (case reserve_step dec con w of
        (Panicked, w1) \<Rightarrow> (Crashed, w1)
      | (Returned u, w1) \<Rightarrow>
          (case multiplex con s w1 of
             (False, w2) \<Rightarrow> (Exited, w2)
           | (True, w2) \<Rightarrow> consume_loop dec con ss w2))"

definition handleConsume ::
  "decoder \<Rightarrow> 'b Consumer \<Rightarrow> select_case list \<Rightarrow> 'b world \<Rightarrow> loop_end \<times> 'b world" where
  "handleConsume dec con ss w =
     (let (r, w1) = consume_loop dec con ss (OnStartConsume con w)
      in (r, if r = Running then w1 else OnEndConsume con w1))"

subsection \<open>Construction and start\<close>

definition Consumer_NewConfiguration :: Consumer_Configuration where
  "Consumer_NewConfiguration =
     \<lparr>WaitForConsumerReserve = 5 * 1000000000, Consumer_Heartbeat = 5 * 1000000000,
      ReleasePriority = 1, ReleaseDelay = 5 * 1000000000, BuryPriority = 1\<rparr>"

text \<open>
  Modelled from the spec: package \<open>connector\<close> is not among the sources. The two
  constructors store a channel in it; section 4.4 has it write outcome events to the
  consumer's channel and submit tasks to the worker's queue.
\<close>

record Connector =
  conn_taskQueue :: "Task chan option"
  conn_taskEventChannel :: "TaskProcessEvent chan option"


text \<open>\<open>StartConsumer\<close>: the error returned, and whether the loop was spawned.\<close>

definition StartConsumer :: "'b Consumer \<Rightarrow> err option \<times> bool" where
  "StartConsumer con =
     (if handler con = None then (Some MissingConsumerHandlerError, False)
      else if \<not> taskPayloadHandler con then (Some MissingTaskPayloadHandlerError, False)
      else (None, True))"

section \<open>Worker\<close>

record Worker_Configuration =
  Concurrency :: int
  WaitToAcceptConsumerTask :: duration
  WaitTaskThreadsToClose :: duration
  Worker_Heartbeat :: duration

subsection \<open>Interface values and \<open>util.IsNil\<close>\<close>

text \<open>
  The worker tests its two sinks with \<open>util.IsNil\<close>, which looks inside the interface
  value. An interface value is \<open>nil\<close>, or has a dynamic type of some kind and a dynamic
  value that is or is not that kind's \<open>nil\<close>. \<open>IsNil\<close> answers for the first case and
  for pointers, maps, channels and slices; it also sends arrays to
  \<open>reflect.Value.IsNil\<close>, which panics on an array; every other kind is not \<open>nil\<close>.
\<close>

datatype Kind = Ptr | Map | Array | Chan | Slice | OtherKind

datatype iface = NilInterface | Dynamic Kind bool

fun IsNil :: "iface \<Rightarrow> bool res" where
  "IsNil NilInterface = Returned True"
| "IsNil (Dynamic Ptr isnil) = Returned isnil"
| "IsNil (Dynamic Map isnil) = Returned isnil"
| "IsNil (Dynamic Array isnil) = Panicked"
| "IsNil (Dynamic Chan isnil) = Returned isnil"
| "IsNil (Dynamic Slice isnil) = Returned isnil"
| "IsNil (Dynamic OtherKind isnil) = Returned False"

record Worker =
  taskQueue :: "Task chan"
  taskQueueQuit :: "bool chan"
  quit :: "bool chan"
  worker_config :: Worker_Configuration
  taskEventHandler :: iface
  worker_eventHandler :: iface
  taskQueueCounter :: int

subsection \<open>Event emission\<close>

text \<open>
  What a piece of worker code does: its effects in order, and whether it returned or
  panicked. \<open>andThen\<close> is sequential composition: nothing runs after a panic.
\<close>

type_synonym run = "effect list \<times> unit res"

definition andThen :: "run \<Rightarrow> run \<Rightarrow> run" where
  "andThen r1 r2 =
     (case snd r1 of
        Panicked \<Rightarrow> (fst r1, Panicked)
      | Returned u \<Rightarrow> (fst r1 @ fst r2, snd r2))"

definition say :: "log_entry \<Rightarrow> run" where
  "say l = ([Logged l], Returned ())"

text \<open>\<open>if !util.IsNil(sink) { sink.Method(...) }\<close>\<close>

definition notify :: "iface \<Rightarrow> effect \<Rightarrow> run" where
  "notify sink e =
     (case IsNil sink of
        Panicked \<Rightarrow> ([], Panicked)
      | Returned True \<Rightarrow> ([], Returned ())
      | Returned False \<Rightarrow> ([e], Returned ()))"

definition OnStartWorker :: "Worker \<Rightarrow> run" where
  "OnStartWorker w = andThen (say LogWorkerStarted) (notify (worker_eventHandler w) (Signal StartWorker))"

definition OnEndWorker :: "Worker \<Rightarrow> run" where
  "OnEndWorker w = andThen (say LogWorkerEnded) (notify (worker_eventHandler w) (Signal EndWorker))"

definition OnPreTask :: "Worker \<Rightarrow> Task \<Rightarrow> int \<Rightarrow> run" where
  "OnPreTask w task threadId =
     andThen (say (LogTaskPre (Name task) threadId))
       (notify (worker_eventHandler w) (Signal (PreTask task)))"

definition OnPostTask :: "Worker \<Rightarrow> Task \<Rightarrow> int \<Rightarrow> run" where
  "OnPostTask w task threadId =
     andThen (say (LogTaskPost (Name task) threadId))
       (notify (worker_eventHandler w) (Signal (PostTask task)))"

definition OnThreadHeartbeat :: "Worker \<Rightarrow> int \<Rightarrow> run" where
  "OnThreadHeartbeat w threadId =
     andThen (say (LogThreadHeartbeat threadId (Worker_Heartbeat (worker_config w))))
       (notify (worker_eventHandler w) (Signal (ThreadHeartbeat threadId)))"

definition OnTaskResult :: "Worker \<Rightarrow> Task \<Rightarrow> string list \<Rightarrow> run" where
  "OnTaskResult w task a =
     andThen (say (LogTaskResult (Name task) a))
       (notify (taskEventHandler w) (Outcome (TaskResult task a)))"

definition OnTaskSuccess :: "Worker \<Rightarrow> Task \<Rightarrow> run" where
  "OnTaskSuccess w task =
     andThen (say (LogTaskSuccess (Name task)))
       (notify (taskEventHandler w) (Outcome (TaskSuccess task)))"

definition OnTaskHeartbeat :: "Worker \<Rightarrow> Task \<Rightarrow> run" where
  "OnTaskHeartbeat w task =
     andThen (say (LogTaskHeartbeat (Name task)))
       (notify (taskEventHandler w) (Outcome (TaskHeartbeat task)))"

definition OnTaskError :: "Worker \<Rightarrow> Task \<Rightarrow> err \<Rightarrow> run" where
  "OnTaskError w task e =
     andThen (say (LogError e))
       (notify (taskEventHandler w) (Outcome (TaskError task e)))"

subsection \<open>Task handlers and the registry\<close>

text \<open>
  Modelled from the spec: package \<open>common\<close> (the \<open>TaskHandler\<close> interface, the registry,
  \<open>GetRegisteredTaskHandler\<close>, \<open>NewTaskThreadError\<close>) is not among the sources; only the
  registry's test is. Sections 3 and 4.1: a handler is bound to a task and to an outcome
  sink, executes, and returns success or failure; the registry maps a name to a factory;
  resolving a name that is not registered fails with an unknown-task-type error, and a
  hit invokes the factory for a fresh instance.

  \<open>handleTask\<close> binds the worker itself as the handler's sink, so what an execution does
  is the calls it makes on the worker's four outcome methods, in order, and what
  \<open>Handle\<close> returns. A handler's behaviour is that, for each task it may be bound to.
\<close>

record execution =
  calls :: "sink_call list"
  returns :: "err option"

type_synonym TaskHandler = "Task \<Rightarrow> execution"

type_synonym registry = "string \<Rightarrow> TaskHandler option"

definition GetRegisteredTaskHandler ::
  "registry \<Rightarrow> Task \<Rightarrow> effect list \<times> TaskHandler option \<times> err option" where
  "GetRegisteredTaskHandler reg task =
     (case reg (Name task) of
        None \<Rightarrow> ([], None, Some (RegisteredTaskHandlerError (Name task)))
      | Some factory \<Rightarrow> ([Constructed (Name task)], Some factory, None))"

definition NewTaskThreadError :: "Task \<Rightarrow> err \<Rightarrow> err" where
  "NewTaskThreadError task e = TaskThreadError (Name task) e"

subsection \<open>Dispatch\<close>

text \<open>A call a handler makes on the sink it was given is a call of the worker's method.\<close>

fun sink_method :: "Worker \<Rightarrow> sink_call \<Rightarrow> run" where
  "sink_method w (TaskResult task a) = OnTaskResult w task a"
| "sink_method w (TaskSuccess task) = OnTaskSuccess w task"
| "sink_method w (TaskHeartbeat task) = OnTaskHeartbeat w task"
| "sink_method w (TaskError task e) = OnTaskError w task e"

fun sink_methods :: "Worker \<Rightarrow> sink_call list \<Rightarrow> run" where
  "sink_methods w [] = ([], Returned ())"
| "sink_methods w (c # cs) = andThen (sink_method w c) (sink_methods w cs)"

text \<open>\<open>taskHandler.Handle()\<close> with the worker as sink: a panic inside a sink method
  leaves \<open>Handle\<close>, and \<open>handleTask\<close>, at once.\<close>

definition Handle :: "Worker \<Rightarrow> TaskHandler \<Rightarrow> Task \<Rightarrow> effect list \<times> err option res" where
  "Handle w taskHandler task =
     (let ex = taskHandler task; r = sink_methods w (calls ex) in
      case snd r of
        Panicked \<Rightarrow> (Handled task # fst r, Panicked)
      | Returned u \<Rightarrow> (Handled task # fst r, Returned (returns ex)))"

definition handleTask :: "registry \<Rightarrow> Worker \<Rightarrow> int \<Rightarrow> Task \<Rightarrow> run" where
  "handleTask reg w threadId task =
     (case GetRegisteredTaskHandler reg task of
        (tr, _, Some e) \<Rightarrow> andThen (tr, Returned ()) (OnTaskError w task (NewTaskThreadError task e))
      | (tr, None, None) \<Rightarrow> (tr, Panicked)
      | (tr, Some taskHandler, None) \<Rightarrow>
          andThen (tr, Returned ())
            (andThen (OnPreTask w task threadId)
               (case Handle w taskHandler task of
                  (tr2, Panicked) \<Rightarrow> (tr2, Panicked)
                | (tr2, Returned (Some e)) \<Rightarrow>
                    andThen (tr2, Returned ()) (OnTaskError w task (NewTaskThreadError task e))
                | (tr2, Returned None) \<Rightarrow>
                    andThen (tr2, Returned ())
                      (andThen (OnPostTask w task threadId) (OnTaskSuccess w task)))))"

text \<open>
  The kinds of the outcome events emitted in a piece of the worker's trace. Each outcome
  method writes its own log line before it looks at the sink, so the line is there
  whether or not a sink is configured; within dispatch only \<open>OnTaskError\<close> logs an error.
\<close>

fun emitted :: "effect \<Rightarrow> EventType list" where
  "emitted (Logged (LogTaskResult n a)) = [Progress]"
| "emitted (Logged (LogTaskSuccess n)) = [Success]"
| "emitted (Logged (LogTaskHeartbeat n)) = [Heartbeat]"
| "emitted (Logged (LogError e)) = [Error]"
| "emitted _ = []"

definition emissions :: "effect list \<Rightarrow> EventType list" where
  "emissions tr = concat (map emitted tr)"

fun terminal :: "EventType \<Rightarrow> bool" where
  "terminal Success = True"
| "terminal Error = True"
| "terminal Progress = False"
| "terminal Heartbeat = False"

fun kind_of :: "sink_call \<Rightarrow> EventType" where
  "kind_of (TaskResult task a) = Progress"
| "kind_of (TaskSuccess task) = Success"
| "kind_of (TaskHeartbeat task) = Heartbeat"
| "kind_of (TaskError task e) = Error"

subsection \<open>Construction\<close>

text \<open>\<open>util.GetSystemConcurrency()\<close> reads \<open>runtime.GOMAXPROCS(0)\<close>, a parameter here.\<close>

definition Worker_NewConfiguration :: "int \<Rightarrow> Worker_Configuration" where
  "Worker_NewConfiguration gomaxprocs =
     \<lparr>Concurrency = gomaxprocs, WaitToAcceptConsumerTask = 30 * 1000000000,
      WaitTaskThreadsToClose = 30 * 1000000000, Worker_Heartbeat = 5 * 1000000000\<rparr>"

definition NewWorker ::
  "int \<Rightarrow> Worker_Configuration option \<Rightarrow> Connector \<Rightarrow> (Worker \<times> Connector) res" where
  "NewWorker gomaxprocs cfg conn =
     (let cfg1 = (case cfg of None \<Rightarrow> Worker_NewConfiguration gomaxprocs | Some c \<Rightarrow> c) in
      case make_chan 0 of
        Panicked \<Rightarrow> Panicked
      | Returned quit1 \<Rightarrow>
          (case make_chan (Concurrency cfg1) of
             Panicked \<Rightarrow> Panicked
           | Returned taskQueueQuit1 \<Rightarrow>
               (case make_chan (Concurrency cfg1) of
                  Panicked \<Rightarrow> Panicked
                | Returned taskQueue1 \<Rightarrow>
                    Returned
                      (\<lparr>taskQueue = taskQueue1, taskQueueQuit = taskQueueQuit1, quit = quit1,
                        worker_config = cfg1, taskEventHandler = NilInterface,
                        worker_eventHandler = NilInterface, taskQueueCounter = 0\<rparr>,
                       conn\<lparr>conn_taskQueue := Some taskQueue1\<rparr>))))"

subsection \<open>Shutdown\<close>

text \<open>
  Stopping the pool involves the caller of \<open>StopWorker\<close>, the supervisor routine that
  \<open>StartWorker\<close> spawned, and the task routines. They meet on three channels: \<open>quit\<close>
  (unbuffered, so a send and its receive are one joint move), \<open>taskQueueQuit\<close> (buffered)
  and \<open>taskQueue\<close>. A buffered send needs room; a receive needs a buffered value.
\<close>

definition can_send :: "'a chan \<Rightarrow> bool" where
  "can_send ch = (\<not> closed ch \<and> length (buffer ch) < capacity ch)"

definition send :: "'a \<Rightarrow> 'a chan \<Rightarrow> 'a chan" where
  "send v ch = ch\<lparr>buffer := buffer ch @ [v]\<rparr>"

definition can_receive :: "'a chan \<Rightarrow> bool" where
  "can_receive ch = (buffer ch \<noteq> [])"

definition receive :: "'a chan \<Rightarrow> 'a chan" where
  "receive ch = ch\<lparr>buffer := tl (buffer ch)\<rparr>"

text \<open>
  The program counters. The caller runs \<open>StopWorker\<close>: log, send on \<open>quit\<close>, close the
  task queue, receive from \<open>quit\<close>, close \<open>quit\<close>. The supervisor receives from \<open>quit\<close>,
  runs \<open>stopTaskThreads\<close> (log, one signal per routine, \<open>util.WaitTimeout\<close>, log its error
  if any), sends on \<open>quit\<close> and ends with \<open>OnEndWorker\<close>.
\<close>

datatype caller_pc =
  StopLog | StopSendQuit | StopCloseQueue | StopAwaitAck | StopCloseQuit | StopReturned

datatype supervisor_pc =
  SupAwaitQuit | SupLogStopping | SupSignal | SupWait | SupCheck | SupSendAck | SupOnEnd | SupDone

text \<open>
  The state: both counters, the loop index of \<open>stopTaskThreads\<close>, the signal channel, the
  number of task routines that have not returned (the wait group's counter), which
  channels are closed, what \<open>WaitTimeout\<close> returned, whether the process has panicked,
  and the effects so far.
\<close>

record shutdown =
  caller :: caller_pc
  supervisor :: supervisor_pc
  sent :: int
  quit_signals :: "bool chan"
  alive :: nat
  queue_closed :: bool
  quit_closed :: bool
  wait_error :: "err option"
  crashed :: bool
  seen :: "effect list"

text \<open>
  The moves. \<open>WaitTimeout\<close> returns \<open>nil\<close> only once every routine has returned, and
  may return its timeout error whatever the routines do. A task routine returns when it
  receives a quit signal or reads \<open>nil\<close> from the closed task queue; one that is busy
  in a handler makes no move. Closing a closed channel panics, and so does a send on
  one; a receive from a closed channel returns at once.
\<close>

datatype move =
    CallerLogs
  | QuitRendezvous
  | CloseQueue
  | SupervisorLogs
  | SendSignal
  | EndSignals
  | WaitDrained
  | WaitTimedOut
  | CheckError
  | AckRendezvous
  | ReceiveClosed
  | CloseQuit
  | EndOfWorker
  | RoutineQuits
  | RoutineDrains

definition initial :: "Worker \<Rightarrow> nat \<Rightarrow> shutdown" where
  "initial w n =
     \<lparr>caller = StopLog, supervisor = SupAwaitQuit, sent = 0, quit_signals = taskQueueQuit w,
      alive = n, queue_closed = closed (taskQueue w), quit_closed = closed (quit w),
      wait_error = None, crashed = False, seen = []\<rparr>"

definition step :: "Worker \<Rightarrow> move \<Rightarrow> shutdown \<Rightarrow> shutdown option" where
  "step w m s =
     (if crashed s then None
      else case m of
        CallerLogs \<Rightarrow>
          if caller s = StopLog
          then Some (s\<lparr>caller := StopSendQuit, seen := seen s @ [Logged LogWorkerStopping]\<rparr>)
          else None
      | QuitRendezvous \<Rightarrow>
          if caller s = StopSendQuit \<and> quit_closed s then Some (s\<lparr>crashed := True\<rparr>)
          else if caller s = StopSendQuit \<and> supervisor s = SupAwaitQuit
          then Some (s\<lparr>caller := StopCloseQueue, supervisor := SupLogStopping\<rparr>)
          else None
      | CloseQueue \<Rightarrow>
          if caller s = StopCloseQueue
          then (if queue_closed s then Some (s\<lparr>crashed := True\<rparr>)
                else Some (s\<lparr>caller := StopAwaitAck, queue_closed := True\<rparr>))
          else None
      | SupervisorLogs \<Rightarrow>
          if supervisor s = SupLogStopping
          then Some (s\<lparr>supervisor := SupSignal, sent := 0,
                      seen := seen s @ [Logged (LogTaskThreadsStopping (Concurrency (worker_config w)))]\<rparr>)
          else None
      | SendSignal \<Rightarrow>
          if supervisor s = SupSignal \<and> sent s < Concurrency (worker_config w)
          then (if closed (quit_signals s) then Some (s\<lparr>crashed := True\<rparr>)
                else if can_send (quit_signals s)
                then Some (s\<lparr>sent := sent s + 1, quit_signals := send True (quit_signals s)\<rparr>)
                else None)
          else None
      | EndSignals \<Rightarrow>
          if supervisor s = SupSignal \<and> \<not> sent s < Concurrency (worker_config w)
          then Some (s\<lparr>supervisor := SupWait\<rparr>)
          else None
      | WaitDrained \<Rightarrow>
          if supervisor s = SupWait \<and> alive s = 0
          then Some (s\<lparr>supervisor := SupCheck, wait_error := None\<rparr>)
          else None
      | WaitTimedOut \<Rightarrow>
          if supervisor s = SupWait
          then Some (s\<lparr>supervisor := SupCheck,
                      wait_error := Some (WorkerWaitTimeoutError (WaitTaskThreadsToClose (worker_config w)))\<rparr>)
          else None
      | CheckError \<Rightarrow>
          if supervisor s = SupCheck
          then Some (s\<lparr>supervisor := SupSendAck,
                      seen := seen s @ (case wait_error s of None \<Rightarrow> [] | Some e \<Rightarrow> [Logged (LogError e)])\<rparr>)
          else None
      | AckRendezvous \<Rightarrow>
          if supervisor s = SupSendAck \<and> quit_closed s then Some (s\<lparr>crashed := True\<rparr>)
          else if supervisor s = SupSendAck \<and> caller s = StopAwaitAck
          then Some (s\<lparr>supervisor := SupOnEnd, caller := StopCloseQuit, seen := seen s @ [QuitAck]\<rparr>)
          else None
      | ReceiveClosed \<Rightarrow>
          if quit_closed s \<and> supervisor s = SupAwaitQuit
          then Some (s\<lparr>supervisor := SupLogStopping\<rparr>)
          else if quit_closed s \<and> caller s = StopAwaitAck
          then Some (s\<lparr>caller := StopCloseQuit\<rparr>)
          else None
      | CloseQuit \<Rightarrow>
          if caller s = StopCloseQuit
          then (if quit_closed s then Some (s\<lparr>crashed := True\<rparr>)
                else Some (s\<lparr>caller := StopReturned, quit_closed := True\<rparr>))
          else None
      | EndOfWorker \<Rightarrow>
          if supervisor s = SupOnEnd
          then Some (s\<lparr>supervisor := SupDone, seen := seen s @ fst (OnEndWorker w),
                      crashed := (snd (OnEndWorker w) = Panicked)\<rparr>)
          else None
      | RoutineQuits \<Rightarrow>
          if 0 < alive s \<and> can_receive (quit_signals s)
          then Some (s\<lparr>alive := alive s - 1, quit_signals := receive (quit_signals s)\<rparr>)
          else None
      | RoutineDrains \<Rightarrow>
          if 0 < alive s \<and> queue_closed s
          then Some (s\<lparr>alive := alive s - 1\<rparr>)
          else None)"

text \<open>A run: the moves of a schedule, one after the other, each enabled in its turn.\<close>

fun run :: "Worker \<Rightarrow> move list \<Rightarrow> shutdown \<Rightarrow> shutdown option" where
  "run w [] s = Some s"
| "run w (m # ms) s = (case step w m s of None \<Rightarrow> None | Some s' \<Rightarrow> run w ms s')"

text \<open>
  How far each party is from its end, and a bound on the moves that remain: the pending
  signals of the loop and the routines still alive are counted too.
\<close>

fun caller_rank :: "caller_pc \<Rightarrow> nat" where
  "caller_rank StopLog = 5"
| "caller_rank StopSendQuit = 4"
| "caller_rank StopCloseQueue = 3"
| "caller_rank StopAwaitAck = 2"
| "caller_rank StopCloseQuit = 1"
| "caller_rank StopReturned = 0"

fun supervisor_rank :: "supervisor_pc \<Rightarrow> nat" where
  "supervisor_rank SupAwaitQuit = 7"
| "supervisor_rank SupLogStopping = 6"
| "supervisor_rank SupSignal = 5"
| "supervisor_rank SupWait = 4"
| "supervisor_rank SupCheck = 3"
| "supervisor_rank SupSendAck = 2"
| "supervisor_rank SupOnEnd = 1"
| "supervisor_rank SupDone = 0"

fun supervisor_weight :: "supervisor_pc \<Rightarrow> int \<Rightarrow> int \<Rightarrow> nat" where
  "supervisor_weight SupAwaitQuit n i = 7 + nat n"
| "supervisor_weight SupLogStopping n i = 6 + nat n"
| "supervisor_weight SupSignal n i = 5 + nat (n - i)"
| "supervisor_weight pc n i = supervisor_rank pc"

definition remaining :: "Worker \<Rightarrow> shutdown \<Rightarrow> nat" where
  "remaining w s =
     (if crashed s then 0 else 1) + caller_rank (caller s)
       + supervisor_weight (supervisor s) (Concurrency (worker_config w)) (sent s) + alive s"

text \<open>The moves of the caller and of the supervisor that wait for no task routine.\<close>

definition own_moves :: "move list" where
  "own_moves = [CallerLogs, QuitRendezvous, CloseQueue, SupervisorLogs, SendSignal, EndSignals,
     WaitTimedOut, CheckError, AckRendezvous, CloseQuit, EndOfWorker]"

text \<open>
  What holds in every state of a run: the two parties are in step and nothing is closed
  twice; the signal channel never holds more than the loop has sent.
\<close>

definition synchronised :: "shutdown \<Rightarrow> bool" where
  "synchronised s \<longleftrightarrow>
     \<not> crashed s
     \<and> \<not> closed (quit_signals s)
     \<and> (queue_closed s \<longleftrightarrow> caller_rank (caller s) \<le> 2)
     \<and> (quit_closed s \<longleftrightarrow> caller_rank (caller s) = 0)
     \<and> (supervisor_rank (supervisor s) = 7 \<longleftrightarrow> 4 \<le> caller_rank (caller s))
     \<and> (supervisor_rank (supervisor s) \<le> 1 \<longleftrightarrow> caller_rank (caller s) \<le> 1)"

definition buffered :: "Worker \<Rightarrow> shutdown \<Rightarrow> bool" where
  "buffered w s \<longleftrightarrow>
     capacity (quit_signals s) = nat (Concurrency (worker_config w))
     \<and> int (length (buffer (quit_signals s))) \<le>
           (if 6 \<le> supervisor_rank (supervisor s) then 0 else sent s)"

text \<open>
  The effects of a shutdown come in one order; how far the two parties are says how many
  of them have happened.
\<close>

definition script :: "Worker \<Rightarrow> shutdown \<Rightarrow> effect list" where
  "script w s =
     (if caller_rank (caller s) \<le> 4 then [Logged LogWorkerStopping] else [])
     @ (if supervisor_rank (supervisor s) \<le> 5
        then [Logged (LogTaskThreadsStopping (Concurrency (worker_config w)))] else [])
     @ (if supervisor_rank (supervisor s) \<le> 2
        then (case wait_error s of None \<Rightarrow> [] | Some e \<Rightarrow> [Logged (LogError e)]) else [])
     @ (if supervisor_rank (supervisor s) \<le> 1 then [QuitAck] else [])
     @ (if supervisor_rank (supervisor s) = 0 then fst (OnEndWorker w) else [])"

definition recorded :: "Worker \<Rightarrow> shutdown \<Rightarrow> bool" where
  "recorded w s \<longleftrightarrow> seen s = script w s"

section \<open>Connector\<close>

text \<open>
  Modelled from the spec: package \<open>connector\<close> is not among the sources. Section 4.4, the
  outcome relay: on each Progress, Success, Error or Heartbeat notification it constructs
  a task process event and writes it to the consumer's outcome-event channel.
\<close>

definition relay :: "sink_call \<Rightarrow> TaskProcessEvent" where
  "relay c =
     (case c of
        TaskResult task a \<Rightarrow> \<lparr>EventId = Progress, Task = task, Result = a\<rparr>
      | TaskSuccess task \<Rightarrow> \<lparr>EventId = Success, Task = task, Result = []\<rparr>
      | TaskHeartbeat task \<Rightarrow> \<lparr>EventId = Heartbeat, Task = task, Result = []\<rparr>
      | TaskError task e \<Rightarrow> \<lparr>EventId = Error, Task = task, Result = []\<rparr>)"

text \<open>The broker calls that acknowledge a job: every call but \<open>Reserve\<close> and \<open>Close\<close>.\<close>

fun is_ack :: "broker_call \<Rightarrow> bool" where
  "is_ack (ReleaseCall i pri delay) = True"
| "is_ack (DeleteCall i) = True"
| "is_ack (BuryCall i pri) = True"
| "is_ack (TouchCall i) = True"
| "is_ack (ReserveCall d) = False"
| "is_ack CloseCall = False"

definition acks :: "effect list \<Rightarrow> broker_call list" where
  "acks tr = filter is_ack (broker_calls tr)"

text \<open>The job a broker call names.\<close>

fun job_of :: "broker_call \<Rightarrow> id option" where
  "job_of (ReleaseCall i pri delay) = Some i"
| "job_of (DeleteCall i) = Some i"
| "job_of (BuryCall i pri) = Some i"
| "job_of (TouchCall i) = Some i"
| "job_of (ReserveCall d) = None"
| "job_of CloseCall = None"

section \<open>Sample values\<close>

text \<open>
  A broker connection that records the calls it receives, answers every reservation with
  \<open>r\<close> and fails nowhere else.
\<close>

definition recording :: "id \<times> bytes option \<times> string option \<Rightarrow> broker_call list Handler" where
  "recording r =
     \<lparr>hReserve = (\<lambda>d b. (r, b @ [ReserveCall d])),
      hRelease = (\<lambda>i pri delay b. (None, b @ [ReleaseCall i pri delay])),
      hDelete = (\<lambda>i b. (None, b @ [DeleteCall i])),
      hBury = (\<lambda>i pri b. (None, b @ [BuryCall i pri])),
      hTouch = (\<lambda>i b. (None, b @ [TouchCall i])),
      hClose = (\<lambda>b. (None, b @ [CloseCall]))\<rparr>"

definition sample_consumer :: "id \<times> bytes option \<times> string option \<Rightarrow> broker_call list Consumer" where
  "sample_consumer r =
     \<lparr>handler = Some (recording r), eventHandler = True, taskPayloadHandler = True,
      config = Consumer_NewConfiguration,
      taskEventChannel = \<lparr>capacity = 1, buffer = [], closed = False\<rparr>,
      quitChannel = \<lparr>capacity = 0, buffer = [], closed = False\<rparr>\<rparr>"

definition idle :: "broker_call list world" where
  "idle = \<lparr>broker = [], trace = []\<rparr>"

text \<open>A decoder that accepts the bodies that open with a brace.\<close>

definition sample_decoder :: decoder where
  "sample_decoder bs =
     (if take 1 bs = [123] then Inr \<lparr>wire_Name = ''echo'', wire_Payload = Some bs\<rparr>
      else Inl ''invalid character looking for beginning of value'')"

definition sample_task :: "string \<Rightarrow> Task" where
  "sample_task n = \<lparr>Id_of = 42, Name = n, Payload = Some [123, 125]\<rparr>"

text \<open>
  Two handlers: \<open>echo\<close> reports a heartbeat and succeeds; \<open>noisy\<close> reports an error
  through its sink and then returns success.
\<close>

definition echo :: TaskHandler where
  "echo task = \<lparr>calls = [TaskHeartbeat task], returns = None\<rparr>"

definition noisy :: TaskHandler where
  "noisy task = \<lparr>calls = [TaskError task (External ''failed'')], returns = None\<rparr>"

definition sample_registry :: registry where
  "sample_registry = [''echo'' \<mapsto> echo, ''noisy'' \<mapsto> noisy]"

definition no_connector :: Connector where
  "no_connector = \<lparr>conn_taskQueue = None, conn_taskEventChannel = None\<rparr>"

definition sample_configuration :: "int \<Rightarrow> Worker_Configuration" where
  "sample_configuration n =
     \<lparr>Concurrency = n, WaitToAcceptConsumerTask = 30 * 1000000000,
      WaitTaskThreadsToClose = 30 * 1000000000, Worker_Heartbeat = 5 * 1000000000\<rparr>"

text \<open>The worker that \<open>NewWorker\<close> builds for two routines, given its two sinks.\<close>

definition sample_worker :: "iface \<Rightarrow> iface \<Rightarrow> Worker" where
  "sample_worker outcome_sink lifecycle_sink =
     \<lparr>taskQueue = \<lparr>capacity = 2, buffer = [], closed = False\<rparr>,
      taskQueueQuit = \<lparr>capacity = 2, buffer = [], closed = False\<rparr>,
      quit = \<lparr>capacity = 0, buffer = [], closed = False\<rparr>,
      worker_config = sample_configuration 2,
      taskEventHandler = outcome_sink, worker_eventHandler = lifecycle_sink,
      taskQueueCounter = 0\<rparr>"

text \<open>
  A shutdown in which one of two routines takes its signal, the other stays busy, and the
  wait times out.
\<close>

definition sample_schedule :: "move list" where
  "sample_schedule =
     [CallerLogs, QuitRendezvous, SupervisorLogs, SendSignal, CloseQueue, SendSignal,
      EndSignals, RoutineQuits, WaitTimedOut, CheckError, AckRendezvous, CloseQuit,
      EndOfWorker]"

section \<open>Properties of the traces\<close>

lemma broker_calls_append: "broker_calls (xs @ ys) = broker_calls xs @ broker_calls ys"
  by (simp add: broker_calls_def)

lemma broker_calls_simps:
  "broker_calls [] = []"
  "broker_calls (Broker c # tr) = c # broker_calls tr"
  "broker_calls (Logged l # tr) = broker_calls tr"
  "broker_calls (Signal sg # tr) = broker_calls tr"
  "broker_calls (Outcome oc # tr) = broker_calls tr"
  "broker_calls (Handoff t # tr) = broker_calls tr"
  "broker_calls (Constructed n # tr) = broker_calls tr"
  "broker_calls (Handled t # tr) = broker_calls tr"
  "broker_calls (QuitAck # tr) = broker_calls tr"
  by (simp_all add: broker_calls_def)

lemma handoffs_append: "handoffs (xs @ ys) = handoffs xs @ handoffs ys"
  by (simp add: handoffs_def)

lemma handoffs_simps:
  "handoffs [] = []"
  "handoffs (Handoff t # tr) = t # handoffs tr"
  "handoffs (Broker c # tr) = handoffs tr"
  "handoffs (Logged l # tr) = handoffs tr"
  "handoffs (Signal sg # tr) = handoffs tr"
  "handoffs (Outcome oc # tr) = handoffs tr"
  "handoffs (Constructed n # tr) = handoffs tr"
  "handoffs (Handled t # tr) = handoffs tr"
  "handoffs (QuitAck # tr) = handoffs tr"
  by (simp_all add: handoffs_def)

lemma acks_append: "acks (xs @ ys) = acks xs @ acks ys"
  by (simp add: acks_def broker_calls_append)

lemma acks_simps:
  "acks [] = []"
  "acks (Broker c # tr) = (if is_ack c then c # acks tr else acks tr)"
  "acks (Logged l # tr) = acks tr"
  "acks (Signal sg # tr) = acks tr"
  "acks (Outcome oc # tr) = acks tr"
  "acks (Handoff t # tr) = acks tr"
  "acks (Constructed n # tr) = acks tr"
  "acks (Handled t # tr) = acks tr"
  "acks (QuitAck # tr) = acks tr"
  by (simp_all add: acks_def broker_calls_simps)

lemma emissions_append: "emissions (xs @ ys) = emissions xs @ emissions ys"
  by (simp add: emissions_def)

lemma emissions_Cons: "emissions (e # tr) = emitted e @ emissions tr"
  by (simp add: emissions_def)

lemma emissions_Nil: "emissions [] = []"
  by (simp add: emissions_def)

section \<open>The consumer\<close>

lemma Reserve_configured:
  assumes "handler con = Some h" and "hReserve h d (broker w) = (r, b)"
  shows "Reserve con d w =
           (r, w\<lparr>broker := b, trace := trace w @ [Logged (LogConsumerReserve d), Broker (ReserveCall d)]\<rparr>)"
  using assms by (simp add: Reserve_def emit_def Let_def)

text \<open>
  The acknowledgments of the multiplex step are those of the event it received, and
  without a broker connection the consumer's methods reach nothing.
\<close>

lemma multiplex_acks:
  assumes "handler con = Some h"
  shows "acks (trace (snd (multiplex con s w))) =
           acks (trace w) @
             (case s of
                Received ev \<Rightarrow>
                  (case EventId ev of
                     Error \<Rightarrow> [BuryCall (Id_of (Task ev)) (BuryPriority (config con))]
                   | Success \<Rightarrow> [DeleteCall (Id_of (Task ev))]
                   | Heartbeat \<Rightarrow> [TouchCall (Id_of (Task ev))]
                   | Progress \<Rightarrow> [])
              | _ \<Rightarrow> [])"
proof (cases s)
  case Quit
  then show ?thesis by (simp add: multiplex_def emit_def acks_append acks_simps)
next
  case (Received ev)
  with assms show ?thesis
    by (cases "EventId ev")
       (auto simp: multiplex_def Bury_def Delete_def Touch_def emit_def Let_def
          acks_append acks_simps split: prod.splits option.splits)
next
  case HeartbeatElapsed
  then show ?thesis
    by (simp add: multiplex_def OnHeartbeat_def emit_def Let_def acks_append acks_simps)
qed

lemma multiplex_unconfigured:
  assumes "handler con = None"
  shows "broker_calls (trace (snd (multiplex con s w))) = broker_calls (trace w)"
  using assms
  by (cases s)
     (auto simp: multiplex_def Bury_def Delete_def Touch_def OnHeartbeat_def emit_def Let_def
        broker_calls_append broker_calls_simps split: EventType.splits)

lemma multiplex_continues: "fst (multiplex con s w) = (s \<noteq> Quit)"
  by (cases s) (auto simp: multiplex_def Let_def split: prod.splits)

lemma reserve_step_started:
  assumes "handler con = Some h" and "taskPayloadHandler con"
  shows "fst (reserve_step dec con w) = Returned ()
         \<and> acks (trace (snd (reserve_step dec con w))) = acks (trace w)"
proof -
  obtain i body e b where r: "hReserve h (WaitForConsumerReserve (config con)) (broker w) = ((i, body, e), b)"
    by (metis prod_cases3 surj_pair)
  show ?thesis
    using assms
    by (auto simp: reserve_step_def Reserve_configured [OF assms(1) r] OnReserveTimeout_def emit_def
        handlePayload_def acks_append acks_simps Let_def
        split: option.splits sum.splits res.splits prod.splits)
qed

text \<open>
  Claim C1. For every outcome event that the multiplex step of the consume loop receives,
  the action taken on the broker connection is exactly this: for an Error event the
  connection's \<open>Bury\<close> of the task's identifier with the configured bury priority, for a
  Success event its \<open>Delete\<close> of the identifier, for a Heartbeat event its \<open>Touch\<close> of
  the identifier, and for a Progress event nothing, the connection being left as it was.
  The whole result of the step is fixed: the connection's new state is the one its own
  method returns, the trace gains the log lines and that one call, an error the
  connection returns is logged, and the loop goes on. The loop runs with a broker
  connection: \<open>StartConsumer\<close> starts none without it.
\<close>

theorem multiplex_event_action:
  assumes "handler con = Some h"
  shows "multiplex con (Received ev) w =
           (True,
            case EventId ev of
              Error \<Rightarrow>
                w\<lparr>broker := snd (hBury h (Id_of (Task ev)) (BuryPriority (config con)) (broker w)),
                  trace := trace w @
                    [Logged (LogTaskProcessEvent Error (Name (Task ev))),
                     Logged (LogConsumerBury (Id_of (Task ev)) (BuryPriority (config con))),
                     Broker (BuryCall (Id_of (Task ev)) (BuryPriority (config con)))] @
                    (case fst (hBury h (Id_of (Task ev)) (BuryPriority (config con)) (broker w)) of
                       None \<Rightarrow> []
                     | Some m \<Rightarrow> [Logged (LogError (External m))])\<rparr>
            | Success \<Rightarrow>
                w\<lparr>broker := snd (hDelete h (Id_of (Task ev)) (broker w)),
                  trace := trace w @
                    [Logged (LogTaskProcessEvent Success (Name (Task ev))),
                     Logged (LogConsumerDelete (Id_of (Task ev))),
                     Broker (DeleteCall (Id_of (Task ev)))] @
                    (case fst (hDelete h (Id_of (Task ev)) (broker w)) of
                       None \<Rightarrow> []
                     | Some m \<Rightarrow> [Logged (LogError (External m))])\<rparr>
            | Heartbeat \<Rightarrow>
                w\<lparr>broker := snd (hTouch h (Id_of (Task ev)) (broker w)),
                  trace := trace w @
                    [Logged (LogTaskProcessEvent Heartbeat (Name (Task ev))),
                     Logged (LogConsumerTouch (Id_of (Task ev))),
                     Broker (TouchCall (Id_of (Task ev)))] @
                    (case fst (hTouch h (Id_of (Task ev)) (broker w)) of
                       None \<Rightarrow> []
                     | Some m \<Rightarrow> [Logged (LogError (External m))])\<rparr>
            | Progress \<Rightarrow>
                w\<lparr>trace := trace w @ [Logged (LogTaskProcessEvent Progress (Name (Task ev)))]\<rparr>)
         \<and> broker_calls (trace (snd (multiplex con (Received ev) w))) =
             broker_calls (trace w) @
               (case EventId ev of
                  Error \<Rightarrow> [BuryCall (Id_of (Task ev)) (BuryPriority (config con))]
                | Success \<Rightarrow> [DeleteCall (Id_of (Task ev))]
                | Heartbeat \<Rightarrow> [TouchCall (Id_of (Task ev))]
                | Progress \<Rightarrow> [])"
proof (cases "EventId ev")
  case Progress
  with assms show ?thesis
    by (simp add: multiplex_def emit_def Let_def broker_calls_append broker_calls_simps)
next
  case Success
  with assms show ?thesis
    by (cases "hDelete h (Id_of (Task ev)) (broker w)"; cases "fst (hDelete h (Id_of (Task ev)) (broker w))")
       (simp_all add: multiplex_def Delete_def emit_def Let_def broker_calls_append broker_calls_simps)
next
  case Error
  with assms show ?thesis
    by (cases "hBury h (Id_of (Task ev)) (BuryPriority (config con)) (broker w)";
        cases "fst (hBury h (Id_of (Task ev)) (BuryPriority (config con)) (broker w))")
       (simp_all add: multiplex_def Bury_def emit_def Let_def broker_calls_append broker_calls_simps)
next
  case Heartbeat
  with assms show ?thesis
    by (cases "hTouch h (Id_of (Task ev)) (broker w)"; cases "fst (hTouch h (Id_of (Task ev)) (broker w))")
       (simp_all add: multiplex_def Touch_def emit_def Let_def broker_calls_append broker_calls_simps)
qed

theorem multiplex_event_action_witness:
  "handler (sample_consumer (0, None, None)) = Some (recording (0, None, None))
   \<and> multiplex (sample_consumer (0, None, None))
        (Received (relay (TaskError (sample_task ''echo'') (External ''failed'')))) idle =
       (True,
        \<lparr>broker = [BuryCall 42 1],
         trace = [Logged (LogTaskProcessEvent Error ''echo''), Logged (LogConsumerBury 42 1),
                  Broker (BuryCall 42 1)]\<rparr>)
   \<and> multiplex (sample_consumer (0, None, None))
        (Received (relay (TaskSuccess (sample_task ''echo'')))) idle =
       (True,
        \<lparr>broker = [DeleteCall 42],
         trace = [Logged (LogTaskProcessEvent Success ''echo''), Logged (LogConsumerDelete 42),
                  Broker (DeleteCall 42)]\<rparr>)
   \<and> multiplex (sample_consumer (0, None, None))
        (Received (relay (TaskHeartbeat (sample_task ''echo'')))) idle =
       (True,
        \<lparr>broker = [TouchCall 42],
         trace = [Logged (LogTaskProcessEvent Heartbeat ''echo''), Logged (LogConsumerTouch 42),
                  Broker (TouchCall 42)]\<rparr>)
   \<and> multiplex (sample_consumer (0, None, None))
        (Received (relay (TaskResult (sample_task ''echo'') [''half'']))) idle =
       (True, \<lparr>broker = [], trace = [Logged (LogTaskProcessEvent Progress ''echo'')]\<rparr>)"
proof -
  have a: "handler (sample_consumer (0, None, None)) = Some (recording (0, None, None))"
    by (simp add: sample_consumer_def)
  note t = multiplex_event_action [OF a, THEN conjunct1]
  have e: "multiplex (sample_consumer (0, None, None))
        (Received (relay (TaskError (sample_task ''echo'') (External ''failed'')))) idle =
       (True,
        \<lparr>broker = [BuryCall 42 1],
         trace = [Logged (LogTaskProcessEvent Error ''echo''), Logged (LogConsumerBury 42 1),
                  Broker (BuryCall 42 1)]\<rparr>)"
    by (subst t)
       (simp add: relay_def sample_task_def idle_def recording_def sample_consumer_def
          Consumer_NewConfiguration_def)
  have s: "multiplex (sample_consumer (0, None, None))
        (Received (relay (TaskSuccess (sample_task ''echo'')))) idle =
       (True,
        \<lparr>broker = [DeleteCall 42],
         trace = [Logged (LogTaskProcessEvent Success ''echo''), Logged (LogConsumerDelete 42),
                  Broker (DeleteCall 42)]\<rparr>)"
    by (subst t) (simp add: relay_def sample_task_def idle_def recording_def)
  have b: "multiplex (sample_consumer (0, None, None))
        (Received (relay (TaskHeartbeat (sample_task ''echo'')))) idle =
       (True,
        \<lparr>broker = [TouchCall 42],
         trace = [Logged (LogTaskProcessEvent Heartbeat ''echo''), Logged (LogConsumerTouch 42),
                  Broker (TouchCall 42)]\<rparr>)"
    by (subst t) (simp add: relay_def sample_task_def idle_def recording_def)
  have p: "multiplex (sample_consumer (0, None, None))
        (Received (relay (TaskResult (sample_task ''echo'') [''half'']))) idle =
       (True, \<lparr>broker = [], trace = [Logged (LogTaskProcessEvent Progress ''echo'')]\<rparr>)"
    by (subst t) (simp add: relay_def sample_task_def idle_def)
  from a e s b p show ?thesis by blast
qed

text \<open>
  Claim C3. For every reserved job whose body decodes, the task handed to the payload
  intake carries the identifier of the reservation, whatever the bytes of the body are:
  the body supplies the name and the payload only.
\<close>

theorem handlePayload_id:
  assumes "handlePayload dec con i body w = (Returned None, w')"
  shows "map Id_of (handoffs (trace w')) = map Id_of (handoffs (trace w)) @ [i]
         \<and> (case body of
               None \<Rightarrow> False
             | Some bs \<Rightarrow>
                 (case dec bs of
                    Inl m \<Rightarrow> False
                  | Inr wr \<Rightarrow>
                      trace w' = trace w @
                        [Handoff \<lparr>Id_of = i, Name = wire_Name wr, Payload = wire_Payload wr\<rparr>]))"
  using assms
  by (auto simp: handlePayload_def Unmarshal_def emit_def handoffs_append handoffs_simps
      split: option.splits sum.splits if_splits)

theorem handlePayload_id_witness:
  "handlePayload sample_decoder (sample_consumer (7, Some [123, 125], None)) 7 (Some [123, 125]) idle =
     (Returned None,
      \<lparr>broker = [], trace = [Handoff \<lparr>Id_of = 7, Name = ''echo'', Payload = Some [123, 125]\<rparr>]\<rparr>)
   \<and> map Id_of (handoffs [Handoff \<lparr>Id_of = 7, Name = ''echo'', Payload = Some [123, 125]\<rparr>]) = [7]"
proof -
  have h: "handlePayload sample_decoder (sample_consumer (7, Some [123, 125], None)) 7 (Some [123, 125]) idle =
     (Returned None,
      \<lparr>broker = [], trace = [Handoff \<lparr>Id_of = 7, Name = ''echo'', Payload = Some [123, 125]\<rparr>]\<rparr>)"
    by (simp add: handlePayload_def Unmarshal_def sample_decoder_def sample_consumer_def idle_def emit_def)
  from handlePayload_id [OF h] h show ?thesis
    by (simp add: idle_def handoffs_def)
qed

text \<open>
  A reserved job with a non-zero identifier and a \<open>nil\<close> body: payload handling fails
  with the empty-payload error, nothing is handed to the payload intake, and no
  acknowledgment of the iteration names the job unless the outcome event received in the
  multiplex step is an event of that very job.
\<close>

lemma nil_body_left_alone:
  assumes "handler con = Some h"
    and "hReserve h (WaitForConsumerReserve (config con)) (broker w) = ((i, None, None), b)"
    and "i \<noteq> 0"
    and "case s of Received ev \<Rightarrow> Id_of (Task ev) \<noteq> i | _ \<Rightarrow> True"
  shows "handlePayload dec con i None v = (Returned (Some (EmptyReserveTaskPayloadError i)), v)
         \<and> reserve_step dec con w =
             (Returned (),
              w\<lparr>broker := b,
                trace := trace w @
                  [Logged (LogConsumerReserve (WaitForConsumerReserve (config con))),
                   Broker (ReserveCall (WaitForConsumerReserve (config con))),
                   Logged (LogError (EmptyReserveTaskPayloadError i))]\<rparr>)
         \<and> (\<exists>new. acks (trace (snd (multiplex con s (snd (reserve_step dec con w))))) =
                      acks (trace w) @ new
                    \<and> Some i \<notin> job_of ` set new)"
proof -
  have hp: "handlePayload dec con i None v = (Returned (Some (EmptyReserveTaskPayloadError i)), v)"
    for v :: "'a world"
    by (simp add: handlePayload_def)
  have rs: "reserve_step dec con w =
      (Returned (), w\<lparr>broker := b, trace := trace w @
          [Logged (LogConsumerReserve (WaitForConsumerReserve (config con))),
           Broker (ReserveCall (WaitForConsumerReserve (config con))),
           Logged (LogError (EmptyReserveTaskPayloadError i))]\<rparr>)"
    using assms(1,2,3) by (simp add: reserve_step_def Reserve_configured hp emit_def)
  have "Some i \<notin> job_of ` set
          (case s of
             Received ev \<Rightarrow>
               (case EventId ev of
                  Error \<Rightarrow> [BuryCall (Id_of (Task ev)) (BuryPriority (config con))]
                | Success \<Rightarrow> [DeleteCall (Id_of (Task ev))]
                | Heartbeat \<Rightarrow> [TouchCall (Id_of (Task ev))]
                | Progress \<Rightarrow> [])
           | _ \<Rightarrow> [])"
    using assms(4) by (auto split: select_case.splits EventType.splits)
  then show ?thesis
    using hp
    by (simp add: rs multiplex_acks [OF assms(1)] acks_append acks_simps)
qed

text \<open>
  Claim C5. A reserved job with a non-zero identifier and an empty body is to fail with
  the empty-payload error, with no handoff to the payload intake and no acknowledgment.
  \<open>handlePayload\<close> tests the body against \<open>nil\<close> only. Run on job 7 with a body that
  is a slice of length zero, the code hands nothing off and acknowledges nothing, but the
  failure it reports is the invalid-payload error of the decoder, not the empty-payload
  error.
\<close>

theorem empty_slice_is_invalid_payload:
  "fst (handlePayload sample_decoder (sample_consumer (7, Some [], None)) 7 (Some []) idle) =
     Returned (Some (InvalidReserveTaskPayloadError 7 (External ''unexpected end of JSON input'')))
   \<and> fst (handlePayload sample_decoder (sample_consumer (7, Some [], None)) 7 (Some []) idle) \<noteq>
     Returned (Some (EmptyReserveTaskPayloadError 7))
   \<and> reserve_step sample_decoder (sample_consumer (7, Some [], None)) idle =
       (Returned (),
        \<lparr>broker = [ReserveCall 5000000000],
         trace = [Logged (LogConsumerReserve 5000000000), Broker (ReserveCall 5000000000),
                  Logged (LogError (InvalidReserveTaskPayloadError 7
                    (External ''unexpected end of JSON input'')))]\<rparr>)"
  by (simp add: handlePayload_def Unmarshal_def reserve_step_def Reserve_def emit_def
      sample_consumer_def recording_def idle_def Consumer_NewConfiguration_def)

text \<open>
  Claim C6. For every failure that the broker's \<open>Reserve\<close> returns, the loop compares the
  text of the error with that of \<open>ErrTimeout\<close>: on a match it runs \<open>OnReserveTimeout\<close>
  (its log line, and the reserve-timeout signal to the lifecycle sink when one is set);
  otherwise it only logs the error. In both cases the reserve step returns and the loop
  goes on to its multiplex step, which alone decides whether the loop exits.
\<close>

theorem reserve_failure_classified:
  assumes "handler con = Some h"
    and "hReserve h (WaitForConsumerReserve (config con)) (broker w) = ((i, body, Some m), b)"
  shows "reserve_step dec con w =
           (Returned (),
            w\<lparr>broker := b,
              trace := trace w @
                [Logged (LogConsumerReserve (WaitForConsumerReserve (config con))),
                 Broker (ReserveCall (WaitForConsumerReserve (config con)))] @
                (if m = ErrTimeout
                 then Logged (LogConsumerReserveTimeout (WaitForConsumerReserve (config con))) #
                        (if eventHandler con then [Signal ReserveTimeout] else [])
                 else [Logged (LogError (External m))])\<rparr>)
         \<and> consume_loop dec con (s # ss) w =
             (case multiplex con s (snd (reserve_step dec con w)) of
                (False, w2) \<Rightarrow> (Exited, w2)
              | (True, w2) \<Rightarrow> consume_loop dec con ss w2)"
  using assms
  by (simp add: reserve_step_def Reserve_configured OnReserveTimeout_def emit_def Let_def)

theorem reserve_failure_classified_witness:
  "handler (sample_consumer (0, None, Some ''timeout'')) = Some (recording (0, None, Some ''timeout''))
   \<and> hReserve (recording (0, None, Some ''timeout''))
        (WaitForConsumerReserve (config (sample_consumer (0, None, Some ''timeout'')))) (broker idle) =
        ((0, None, Some ''timeout''), [ReserveCall 5000000000])
   \<and> reserve_step sample_decoder (sample_consumer (0, None, Some ''timeout'')) idle =
        (Returned (),
         \<lparr>broker = [ReserveCall 5000000000],
          trace = [Logged (LogConsumerReserve 5000000000), Broker (ReserveCall 5000000000),
                   Logged (LogConsumerReserveTimeout 5000000000), Signal ReserveTimeout]\<rparr>)
   \<and> fst (consume_loop sample_decoder (sample_consumer (0, None, Some ''timeout''))
        [HeartbeatElapsed] idle) = Running"
proof -
  have a: "handler (sample_consumer (0, None, Some ''timeout'')) = Some (recording (0, None, Some ''timeout''))"
    by (simp add: sample_consumer_def)
  have b: "hReserve (recording (0, None, Some ''timeout''))
        (WaitForConsumerReserve (config (sample_consumer (0, None, Some ''timeout'')))) (broker idle) =
        ((0, None, Some ''timeout''), [ReserveCall 5000000000])"
    by (simp add: recording_def sample_consumer_def Consumer_NewConfiguration_def idle_def)
  from reserve_failure_classified [OF a b, of sample_decoder HeartbeatElapsed "[]"] a b
  show ?thesis
    by (simp add: ErrTimeout_def idle_def sample_consumer_def Consumer_NewConfiguration_def
        multiplex_def OnHeartbeat_def emit_def)
qed

text \<open>
  Claim C7. \<open>StartConsumer\<close> returns the missing-handler error when no broker handler is
  configured, and the missing-payload-handler error when a broker handler is configured
  and no payload intake is; in both cases it returns without spawning the consume loop.
  When both are configured it spawns the loop and returns no error.
\<close>

theorem StartConsumer_checks:
  "(handler con = None \<longrightarrow> StartConsumer con = (Some MissingConsumerHandlerError, False))
   \<and> (handler con \<noteq> None \<and> \<not> taskPayloadHandler con \<longrightarrow>
        StartConsumer con = (Some MissingTaskPayloadHandlerError, False))
   \<and> (handler con \<noteq> None \<and> taskPayloadHandler con \<longrightarrow> StartConsumer con = (None, True))"
  by (simp add: StartConsumer_def)

theorem StartConsumer_checks_witness:
  "StartConsumer ((sample_consumer (0, None, None))\<lparr>handler := None\<rparr>) =
     (Some MissingConsumerHandlerError, False)
   \<and> StartConsumer ((sample_consumer (0, None, None))\<lparr>taskPayloadHandler := False\<rparr>) =
     (Some MissingTaskPayloadHandlerError, False)
   \<and> StartConsumer (sample_consumer (0, None, None)) = (None, True)"
  using StartConsumer_checks [of "(sample_consumer (0, None, None))\<lparr>handler := None\<rparr>"]
    StartConsumer_checks [of "(sample_consumer (0, None, None))\<lparr>taskPayloadHandler := False\<rparr>"]
    StartConsumer_checks [of "sample_consumer (0, None, None)"]
  by (simp add: sample_consumer_def)

section \<open>The worker\<close>

lemma outcomes_append: "outcomes (xs @ ys) = outcomes xs @ outcomes ys"
  by (simp add: outcomes_def)

lemma outcomes_simps:
  "outcomes [] = []"
  "outcomes (Outcome oc # tr) = oc # outcomes tr"
  "outcomes (Broker c # tr) = outcomes tr"
  "outcomes (Logged l # tr) = outcomes tr"
  "outcomes (Signal sg # tr) = outcomes tr"
  "outcomes (Handoff t # tr) = outcomes tr"
  "outcomes (Constructed n # tr) = outcomes tr"
  "outcomes (Handled t # tr) = outcomes tr"
  "outcomes (QuitAck # tr) = outcomes tr"
  by (simp_all add: outcomes_def)

lemma snd_andThen:
  "snd (andThen r1 r2) = Returned () \<longleftrightarrow> snd r1 = Returned () \<and> snd r2 = Returned ()"
  by (cases r1; cases "snd r1") (auto simp: andThen_def)

lemma fst_andThen: "snd r1 = Returned () \<Longrightarrow> fst (andThen r1 r2) = fst r1 @ fst r2"
  by (simp add: andThen_def)

lemma notify_cases:
  "notify sink e = ([], Panicked) \<and> IsNil sink = Panicked
   \<or> notify sink e = ([], Returned ()) \<and> IsNil sink = Returned True
   \<or> notify sink e = ([e], Returned ()) \<and> IsNil sink = Returned False"
  by (cases "IsNil sink") (auto simp: notify_def split: bool.splits)

lemma emissions_notify: "emitted e = [] \<Longrightarrow> emissions (fst (notify sink e)) = []"
  using notify_cases [of sink e] by (auto simp: emissions_def)

lemma outcomes_notify_signal: "outcomes (fst (notify sink (Signal sg))) = []"
  using notify_cases [of sink "Signal sg"] by (auto simp: outcomes_def)

text \<open>Every outcome method emits its own kind, whatever the sink is.\<close>

lemma sink_method_emissions: "emissions (fst (sink_method w c)) = [kind_of c]"
  by (cases c)
     (simp_all add: OnTaskResult_def OnTaskSuccess_def OnTaskHeartbeat_def OnTaskError_def
        say_def fst_andThen emissions_append emissions_Cons emissions_Nil emissions_notify)

lemma sink_methods_emissions:
  "snd (sink_methods w cs) = Returned () \<Longrightarrow>
     emissions (fst (sink_methods w cs)) = map kind_of cs"
  by (induction cs)
     (auto simp: emissions_Nil snd_andThen fst_andThen emissions_append sink_method_emissions)

text \<open>With an outcome sink set, every outcome method delivers its call to it.\<close>

lemma sink_method_delivers:
  "IsNil (taskEventHandler w) = Returned False \<Longrightarrow>
     snd (sink_method w c) = Returned () \<and> outcomes (fst (sink_method w c)) = [c]"
  by (cases c)
     (simp_all add: OnTaskResult_def OnTaskSuccess_def OnTaskHeartbeat_def OnTaskError_def
        say_def andThen_def notify_def outcomes_simps)

lemma sink_methods_deliver:
  "IsNil (taskEventHandler w) = Returned False \<Longrightarrow>
     snd (sink_methods w cs) = Returned () \<and> outcomes (fst (sink_methods w cs)) = cs"
  by (induction cs)
     (auto simp: sink_method_delivers snd_andThen fst_andThen outcomes_append outcomes_simps)

lemma filter_terminal_quiet:
  "list_all (\<lambda>c. \<not> terminal (kind_of c)) cs \<Longrightarrow> filter terminal (map kind_of cs) = []"
  by (induction cs) auto

lemma OnPreTask_quiet:
  "emissions (fst (OnPreTask w task threadId)) = []"
  "outcomes (fst (OnPreTask w task threadId)) = []"
  by (simp_all add: OnPreTask_def say_def fst_andThen emissions_append emissions_Cons
      emissions_Nil emissions_notify outcomes_append outcomes_simps outcomes_notify_signal)

lemma OnPostTask_quiet:
  "emissions (fst (OnPostTask w task threadId)) = []"
  "outcomes (fst (OnPostTask w task threadId)) = []"
  by (simp_all add: OnPostTask_def say_def fst_andThen emissions_append emissions_Cons
      emissions_Nil emissions_notify outcomes_append outcomes_simps outcomes_notify_signal)

text \<open>
  What a dispatch that returns has emitted: the notifications of the handler, then one
  event of its own.
\<close>

lemma handleTask_emissions:
  assumes returned: "snd (handleTask reg w threadId task) = Returned ()"
  shows "emissions (fst (handleTask reg w threadId task)) =
           (case reg (Name task) of
              None \<Rightarrow> [Error]
            | Some h \<Rightarrow> map kind_of (calls (h task)) @
                         [if returns (h task) = None then Success else Error])"
proof (cases "reg (Name task)")
  case None
  then show ?thesis
    by (simp add: handleTask_def GetRegisteredTaskHandler_def andThen_def OnTaskError_def say_def
        emissions_append emissions_Cons emissions_Nil emissions_notify)
next
  case (Some h)
  from returned Some have pre: "snd (OnPreTask w task threadId) = Returned ()"
    by (auto simp: handleTask_def GetRegisteredTaskHandler_def snd_andThen)
  from returned Some pre have ms: "snd (sink_methods w (calls (h task))) = Returned ()"
    by (cases "snd (sink_methods w (calls (h task)))")
       (auto simp: handleTask_def GetRegisteredTaskHandler_def andThen_def Handle_def Let_def)
  show ?thesis
  proof (cases "returns (h task)")
    case None
    from returned \<open>reg (Name task) = Some h\<close> pre ms None
    have post: "snd (OnPostTask w task threadId) = Returned ()"
      by (auto simp: handleTask_def GetRegisteredTaskHandler_def andThen_def Handle_def Let_def
          split: res.splits)
    have succ: "emissions (fst (OnTaskSuccess w task)) = [Success]"
      using sink_method_emissions [of w "TaskSuccess task"] by simp
    from \<open>reg (Name task) = Some h\<close> None pre ms post show ?thesis
      by (simp add: handleTask_def GetRegisteredTaskHandler_def andThen_def Handle_def Let_def
          emissions_append emissions_Cons emissions_Nil OnPreTask_quiet OnPostTask_quiet succ
          sink_methods_emissions)
  next
    case (Some e)
    have fail: "emissions (fst (OnTaskError w task (NewTaskThreadError task e))) = [Error]"
      using sink_method_emissions [of w "TaskError task (NewTaskThreadError task e)"] by simp
    from \<open>reg (Name task) = Some h\<close> Some pre ms show ?thesis
      by (simp add: handleTask_def GetRegisteredTaskHandler_def andThen_def Handle_def Let_def
          emissions_append emissions_Cons emissions_Nil OnPreTask_quiet fail
          sink_methods_emissions)
  qed
qed

text \<open>With an outcome sink set, the sink receives one call for each emission.\<close>

lemma handleTask_delivers:
  assumes returned: "snd (handleTask reg w threadId task) = Returned ()"
    and sink: "IsNil (taskEventHandler w) = Returned False"
  shows "outcomes (fst (handleTask reg w threadId task)) =
           (case reg (Name task) of
              None \<Rightarrow> [TaskError task (NewTaskThreadError task (RegisteredTaskHandlerError (Name task)))]
            | Some h \<Rightarrow> calls (h task) @
                [case returns (h task) of
                   None \<Rightarrow> TaskSuccess task
                 | Some e \<Rightarrow> TaskError task (NewTaskThreadError task e)])"
proof (cases "reg (Name task)")
  case None
  with sink show ?thesis
    by (simp add: handleTask_def GetRegisteredTaskHandler_def andThen_def OnTaskError_def say_def
        notify_def outcomes_simps)
next
  case (Some h)
  from returned Some have pre: "snd (OnPreTask w task threadId) = Returned ()"
    by (auto simp: handleTask_def GetRegisteredTaskHandler_def snd_andThen)
  note ms = sink_methods_deliver [OF sink, of "calls (h task)"]
  show ?thesis
  proof (cases "returns (h task)")
    case None
    from returned \<open>reg (Name task) = Some h\<close> pre ms None
    have post: "snd (OnPostTask w task threadId) = Returned ()"
      by (auto simp: handleTask_def GetRegisteredTaskHandler_def andThen_def Handle_def Let_def
          split: res.splits)
    from \<open>reg (Name task) = Some h\<close> None pre ms post
      sink_method_delivers [OF sink, of "TaskSuccess task"]
    show ?thesis
      by (simp add: handleTask_def GetRegisteredTaskHandler_def andThen_def Handle_def Let_def
          outcomes_append outcomes_simps OnPreTask_quiet OnPostTask_quiet)
  next
    case (Some e)
    from \<open>reg (Name task) = Some h\<close> Some pre ms
      sink_method_delivers [OF sink, of "TaskError task (NewTaskThreadError task e)"]
    show ?thesis
      by (simp add: handleTask_def GetRegisteredTaskHandler_def andThen_def Handle_def Let_def
          outcomes_append outcomes_simps OnPreTask_quiet)
  qed
qed

text \<open>
  Claim C2, as the code has it. For every task handed to \<open>handleTask\<close> whose handler, if
  one is resolved, itself sends only Progress and Heartbeat notifications through the
  sink it is given, exactly one terminal outcome event is emitted: an Error when
  resolution or execution fails, a Success otherwise, never both and never neither, and
  it comes after every notification of the handler. The events are the calls of the
  worker's outcome methods, and with an outcome sink set they are the calls the sink
  receives; Progress and Heartbeat are not terminal. The statement is about a dispatch
  that returns: what \<open>util.IsNil\<close> does on a sink of array type, a panic, is left aside.
\<close>

theorem handleTask_one_terminal:
  assumes returned: "snd (handleTask reg w threadId task) = Returned ()"
    and quiet: "list_all (\<lambda>c. \<not> terminal (kind_of c))
                 (case reg (Name task) of None \<Rightarrow> [] | Some h \<Rightarrow> calls (h task))"
  shows "emissions (fst (handleTask reg w threadId task)) =
           (case reg (Name task) of None \<Rightarrow> [] | Some h \<Rightarrow> map kind_of (calls (h task))) @
           [case reg (Name task) of
              None \<Rightarrow> Error
            | Some h \<Rightarrow> if returns (h task) = None then Success else Error]
         \<and> filter terminal (emissions (fst (handleTask reg w threadId task))) =
           [case reg (Name task) of
              None \<Rightarrow> Error
            | Some h \<Rightarrow> if returns (h task) = None then Success else Error]
         \<and> (IsNil (taskEventHandler w) = Returned False \<longrightarrow>
              outcomes (fst (handleTask reg w threadId task)) =
                (case reg (Name task) of
                   None \<Rightarrow>
                     [TaskError task
                        (TaskThreadError (Name task) (RegisteredTaskHandlerError (Name task)))]
                 | Some h \<Rightarrow> calls (h task) @
                     [case returns (h task) of
                        None \<Rightarrow> TaskSuccess task
                      | Some e \<Rightarrow> TaskError task (TaskThreadError (Name task) e)]))"
proof (cases "reg (Name task)")
  case None
  then show ?thesis
    using handleTask_delivers [OF returned, unfolded NewTaskThreadError_def]
    by (simp add: handleTask_emissions [OF returned])
next
  case (Some h)
  with quiet have "filter terminal (map kind_of (calls (h task))) = []"
    by (simp add: filter_terminal_quiet)
  with Some show ?thesis
    using handleTask_delivers [OF returned, unfolded NewTaskThreadError_def]
    by (simp add: handleTask_emissions [OF returned])
qed

theorem handleTask_one_terminal_witness:
  "snd (handleTask sample_registry (sample_worker (Dynamic Ptr False) NilInterface) 1
          (sample_task ''echo'')) = Returned ()
   \<and> list_all (\<lambda>c. \<not> terminal (kind_of c)) (calls (echo (sample_task ''echo'')))
   \<and> IsNil (taskEventHandler (sample_worker (Dynamic Ptr False) NilInterface)) = Returned False
   \<and> emissions (fst (handleTask sample_registry (sample_worker (Dynamic Ptr False) NilInterface) 1
          (sample_task ''echo''))) = [Heartbeat, Success]
   \<and> filter terminal (emissions (fst (handleTask sample_registry
          (sample_worker (Dynamic Ptr False) NilInterface) 1 (sample_task ''echo'')))) = [Success]
   \<and> outcomes (fst (handleTask sample_registry (sample_worker (Dynamic Ptr False) NilInterface) 1
          (sample_task ''echo''))) =
       [TaskHeartbeat (sample_task ''echo''), TaskSuccess (sample_task ''echo'')]"
proof -
  have r: "snd (handleTask sample_registry (sample_worker (Dynamic Ptr False) NilInterface) 1
          (sample_task ''echo'')) = Returned ()"
    by (simp add: handleTask_def GetRegisteredTaskHandler_def sample_registry_def sample_task_def
        sample_worker_def echo_def Handle_def OnPreTask_def OnPostTask_def OnTaskSuccess_def
        OnTaskHeartbeat_def andThen_def say_def notify_def)
  have q: "list_all (\<lambda>c. \<not> terminal (kind_of c))
             (case sample_registry (Name (sample_task ''echo'')) of
                None \<Rightarrow> [] | Some h \<Rightarrow> calls (h (sample_task ''echo'')))"
    by (simp add: sample_registry_def sample_task_def echo_def)
  have k: "IsNil (taskEventHandler (sample_worker (Dynamic Ptr False) NilInterface)) = Returned False"
    by (simp add: sample_worker_def)
  have l: "sample_registry (Name (sample_task ''echo'')) = Some echo"
    by (simp add: sample_registry_def sample_task_def)
  from handleTask_one_terminal [OF r q] r q k show ?thesis
    by (simp add: l echo_def)
qed

text \<open>
  The claim as written fails for a handler that itself sends a terminal notification:
  \<open>noisy\<close> reports an error through its sink and returns success, and dispatch emits
  both an Error and a Success for the one task; the sink receives both. It also fails
  when dispatch does not return: with a lifecycle sink of array type \<open>util.IsNil\<close>
  panics in the pre-task emission, and no terminal event is emitted for the task.
\<close>

theorem noisy_handler_two_terminals:
  "filter terminal (emissions (fst (handleTask sample_registry
      (sample_worker (Dynamic Ptr False) NilInterface) 1 (sample_task ''noisy'')))) =
     [Error, Success]
   \<and> outcomes (fst (handleTask sample_registry
      (sample_worker (Dynamic Ptr False) NilInterface) 1 (sample_task ''noisy''))) =
     [TaskError (sample_task ''noisy'') (External ''failed''), TaskSuccess (sample_task ''noisy'')]
   \<and> handleTask sample_registry (sample_worker (Dynamic Ptr False) (Dynamic Array False)) 1
      (sample_task ''echo'') =
     ([Constructed ''echo'', Logged (LogTaskPre ''echo'' 1)], Panicked)
   \<and> filter terminal (emissions (fst (handleTask sample_registry
      (sample_worker (Dynamic Ptr False) (Dynamic Array False)) 1 (sample_task ''echo'')))) = []"
  by (simp add: handleTask_def GetRegisteredTaskHandler_def sample_registry_def sample_task_def
      sample_worker_def noisy_def echo_def Handle_def OnPreTask_def OnPostTask_def OnTaskSuccess_def
      OnTaskError_def andThen_def say_def notify_def emissions_def outcomes_def)

lemma multiplex_error_event:
  assumes "handler con = Some h" and "EventId ev = Error"
  shows "multiplex con (Received ev) w =
           (True,
            w\<lparr>broker := snd (hBury h (Id_of (Task ev)) (BuryPriority (config con)) (broker w)),
              trace := trace w @
                [Logged (LogTaskProcessEvent Error (Name (Task ev))),
                 Logged (LogConsumerBury (Id_of (Task ev)) (BuryPriority (config con))),
                 Broker (BuryCall (Id_of (Task ev)) (BuryPriority (config con)))] @
                (case fst (hBury h (Id_of (Task ev)) (BuryPriority (config con)) (broker w)) of
                   None \<Rightarrow> []
                 | Some m \<Rightarrow> [Logged (LogError (External m))])\<rparr>)"
  using assms
  by (cases "hBury h (Id_of (Task ev)) (BuryPriority (config con)) (broker w)";
      cases "fst (hBury h (Id_of (Task ev)) (BuryPriority (config con)) (broker w))")
     (simp_all add: multiplex_def Bury_def emit_def Let_def)

text \<open>
  Claim C4. For every task whose name has no registered handler, dispatch emits one Error
  outcome event that wraps the resolution failure, and does nothing else: no handler is
  constructed or executed and no pre-task signal is sent. With the connector as the
  worker's outcome sink and a started consumer, the connector relays one Error event for
  the task, and the iteration of the consume loop that receives it reserves, which
  acknowledges nothing, and then takes exactly one action on the broker connection:
  \<open>Bury\<close> of the task's identifier with the configured bury priority.
\<close>

theorem unknown_task_buried:
  assumes miss: "reg (Name task) = None"
    and sink: "IsNil (taskEventHandler w) = Returned False"
    and broker: "handler con = Some h"
    and intake: "taskPayloadHandler con"
  shows "handleTask reg w threadId task =
           ([Logged (LogError (TaskThreadError (Name task) (RegisteredTaskHandlerError (Name task)))),
             Outcome (TaskError task
               (TaskThreadError (Name task) (RegisteredTaskHandlerError (Name task))))],
            Returned ())
         \<and> map relay (outcomes (fst (handleTask reg w threadId task))) =
             [\<lparr>EventId = Error, Task = task, Result = []\<rparr>]
         \<and> fst (reserve_step dec con wd) = Returned ()
         \<and> acks (trace (snd (reserve_step dec con wd))) = acks (trace wd)
         \<and> consume_loop dec con
             (map (\<lambda>c. Received (relay c)) (outcomes (fst (handleTask reg w threadId task)))) wd =
             (Running,
              (snd (reserve_step dec con wd))
                \<lparr>broker := snd (hBury h (Id_of task) (BuryPriority (config con))
                              (broker (snd (reserve_step dec con wd)))),
                 trace := trace (snd (reserve_step dec con wd)) @
                   [Logged (LogTaskProcessEvent Error (Name task)),
                    Logged (LogConsumerBury (Id_of task) (BuryPriority (config con))),
                    Broker (BuryCall (Id_of task) (BuryPriority (config con)))] @
                   (case fst (hBury h (Id_of task) (BuryPriority (config con))
                                (broker (snd (reserve_step dec con wd)))) of
                      None \<Rightarrow> []
                    | Some m \<Rightarrow> [Logged (LogError (External m))])\<rparr>)
         \<and> acks (trace (snd (consume_loop dec con
                  (map (\<lambda>c. Received (relay c)) (outcomes (fst (handleTask reg w threadId task))))
                  wd))) =
             acks (trace wd) @ [BuryCall (Id_of task) (BuryPriority (config con))]"
proof -
  let ?E = "TaskThreadError (Name task) (RegisteredTaskHandlerError (Name task))"
  let ?ev = "\<lparr>EventId = Error, Task = task, Result = []\<rparr>"
  have ht: "handleTask reg w threadId task =
              ([Logged (LogError ?E), Outcome (TaskError task ?E)], Returned ())"
    using miss sink
    by (simp add: handleTask_def GetRegisteredTaskHandler_def NewTaskThreadError_def OnTaskError_def
        andThen_def say_def notify_def)
  have oc: "outcomes (fst (handleTask reg w threadId task)) = [TaskError task ?E]"
    by (simp add: ht outcomes_def)
  have rl: "relay (TaskError task ?E) = ?ev"
    by (simp add: relay_def)
  obtain w1 where rs: "reserve_step dec con wd = (Returned (), w1)"
    and a1: "acks (trace w1) = acks (trace wd)"
    using reserve_step_started [OF broker intake, of dec wd]
    by (cases "reserve_step dec con wd") auto
  have mx: "multiplex con (Received ?ev) w1 =
      (True,
       w1\<lparr>broker := snd (hBury h (Id_of task) (BuryPriority (config con)) (broker w1)),
          trace := trace w1 @
            [Logged (LogTaskProcessEvent Error (Name task)),
             Logged (LogConsumerBury (Id_of task) (BuryPriority (config con))),
             Broker (BuryCall (Id_of task) (BuryPriority (config con)))] @
            (case fst (hBury h (Id_of task) (BuryPriority (config con)) (broker w1)) of
               None \<Rightarrow> []
             | Some m \<Rightarrow> [Logged (LogError (External m))])\<rparr>)"
    using multiplex_error_event [OF broker, of ?ev w1] by simp
  have a2: "acks (trace (snd (multiplex con (Received ?ev) w1))) =
              acks (trace w1) @ [BuryCall (Id_of task) (BuryPriority (config con))]"
    using multiplex_acks [OF broker, of "Received ?ev" w1] by simp
  have loop: "consume_loop dec con [Received ?ev] wd = (Running, snd (multiplex con (Received ?ev) w1))"
    by (simp add: rs mx)
  show ?thesis
    unfolding oc
    using a1 a2 by (simp add: ht rl rs loop) (simp add: mx)
qed

theorem unknown_task_buried_witness:
  "sample_registry (Name (sample_task ''missing'')) = None
   \<and> IsNil (taskEventHandler (sample_worker (Dynamic Ptr False) NilInterface)) = Returned False
   \<and> handler (sample_consumer (0, None, None)) = Some (recording (0, None, None))
   \<and> taskPayloadHandler (sample_consumer (0, None, None))
   \<and> outcomes (fst (handleTask sample_registry (sample_worker (Dynamic Ptr False) NilInterface) 1
        (sample_task ''missing''))) =
       [TaskError (sample_task ''missing'')
          (TaskThreadError ''missing'' (RegisteredTaskHandlerError ''missing''))]
   \<and> acks (trace (snd (consume_loop sample_decoder (sample_consumer (0, None, None))
        (map (\<lambda>c. Received (relay c))
           (outcomes (fst (handleTask sample_registry
              (sample_worker (Dynamic Ptr False) NilInterface) 1 (sample_task ''missing'')))))
        idle))) = [BuryCall 42 1]"
proof -
  have a: "sample_registry (Name (sample_task ''missing'')) = None"
    by (simp add: sample_registry_def sample_task_def)
  have b: "IsNil (taskEventHandler (sample_worker (Dynamic Ptr False) NilInterface)) = Returned False"
    by (simp add: sample_worker_def)
  have c: "handler (sample_consumer (0, None, None)) = Some (recording (0, None, None))"
    by (simp add: sample_consumer_def)
  have d: "taskPayloadHandler (sample_consumer (0, None, None))"
    by (simp add: sample_consumer_def)
  note t = unknown_task_buried [of sample_registry "sample_task ''missing''"
      "sample_worker (Dynamic Ptr False) NilInterface" "sample_consumer (0, None, None)"
      "recording (0, None, None)" 1 sample_decoder idle, OF a b c d]
  have n: "Name (sample_task ''missing'') = ''missing''" "Id_of (sample_task ''missing'') = 42"
    by (simp_all add: sample_task_def)
  have p: "BuryPriority (config (sample_consumer (0, None, None))) = 1"
    by (simp add: sample_consumer_def Consumer_NewConfiguration_def)
  have i: "acks (trace idle) = []"
    by (simp add: idle_def acks_simps)
  have o: "outcomes (fst (handleTask sample_registry (sample_worker (Dynamic Ptr False) NilInterface) 1
        (sample_task ''missing''))) =
       [TaskError (sample_task ''missing'')
          (TaskThreadError ''missing'' (RegisteredTaskHandlerError ''missing''))]"
    using t [THEN conjunct1] by (simp add: n outcomes_simps)
  have k: "acks (trace (snd (consume_loop sample_decoder (sample_consumer (0, None, None))
        (map (\<lambda>c. Received (relay c))
           (outcomes (fst (handleTask sample_registry
              (sample_worker (Dynamic Ptr False) NilInterface) 1 (sample_task ''missing'')))))
        idle))) = [BuryCall 42 1]"
    using t [THEN conjunct2, THEN conjunct2, THEN conjunct2, THEN conjunct2, THEN conjunct2]
    by (simp only: n p i append_Nil)
  from a b c d o k show ?thesis by blast
qed

text \<open>
  Claim C10. Each of the nine emission methods of the worker tests its sink with
  \<open>util.IsNil\<close> before it calls it. When the sink is \<open>nil\<close> the method writes its log
  line, calls nothing and returns without a panic: with no lifecycle sink and no outcome
  sink every emission is a log entry only, and a Success or an Error outcome is dropped,
  not raised as an error. When the sink is set the method writes the same log line and
  then makes its one call on the sink.
\<close>

theorem no_sink_log_only:
  "(IsNil (worker_eventHandler w) = Returned True \<longrightarrow>
      OnStartWorker w = ([Logged LogWorkerStarted], Returned ())
      \<and> OnEndWorker w = ([Logged LogWorkerEnded], Returned ())
      \<and> OnPreTask w task threadId = ([Logged (LogTaskPre (Name task) threadId)], Returned ())
      \<and> OnPostTask w task threadId = ([Logged (LogTaskPost (Name task) threadId)], Returned ())
      \<and> OnThreadHeartbeat w threadId =
          ([Logged (LogThreadHeartbeat threadId (Worker_Heartbeat (worker_config w)))], Returned ()))
   \<and> (IsNil (taskEventHandler w) = Returned True \<longrightarrow>
      OnTaskResult w task a = ([Logged (LogTaskResult (Name task) a)], Returned ())
      \<and> OnTaskSuccess w task = ([Logged (LogTaskSuccess (Name task))], Returned ())
      \<and> OnTaskHeartbeat w task = ([Logged (LogTaskHeartbeat (Name task))], Returned ())
      \<and> OnTaskError w task e = ([Logged (LogError e)], Returned ()))
   \<and> (IsNil (worker_eventHandler w) = Returned False \<longrightarrow>
      OnStartWorker w = ([Logged LogWorkerStarted, Signal StartWorker], Returned ())
      \<and> OnEndWorker w = ([Logged LogWorkerEnded, Signal EndWorker], Returned ())
      \<and> OnPreTask w task threadId =
          ([Logged (LogTaskPre (Name task) threadId), Signal (PreTask task)], Returned ())
      \<and> OnPostTask w task threadId =
          ([Logged (LogTaskPost (Name task) threadId), Signal (PostTask task)], Returned ())
      \<and> OnThreadHeartbeat w threadId =
          ([Logged (LogThreadHeartbeat threadId (Worker_Heartbeat (worker_config w))),
            Signal (ThreadHeartbeat threadId)], Returned ()))
   \<and> (IsNil (taskEventHandler w) = Returned False \<longrightarrow>
      OnTaskResult w task a =
          ([Logged (LogTaskResult (Name task) a), Outcome (TaskResult task a)], Returned ())
      \<and> OnTaskSuccess w task =
          ([Logged (LogTaskSuccess (Name task)), Outcome (TaskSuccess task)], Returned ())
      \<and> OnTaskHeartbeat w task =
          ([Logged (LogTaskHeartbeat (Name task)), Outcome (TaskHeartbeat task)], Returned ())
      \<and> OnTaskError w task e = ([Logged (LogError e), Outcome (TaskError task e)], Returned ()))"
  by (simp add: OnStartWorker_def OnEndWorker_def OnPreTask_def OnPostTask_def OnThreadHeartbeat_def
      OnTaskResult_def OnTaskSuccess_def OnTaskHeartbeat_def OnTaskError_def andThen_def say_def
      notify_def)

theorem no_sink_log_only_witness:
  "IsNil (worker_eventHandler (sample_worker NilInterface (Dynamic Ptr True))) = Returned True
   \<and> IsNil (taskEventHandler (sample_worker NilInterface (Dynamic Ptr True))) = Returned True
   \<and> IsNil (worker_eventHandler (sample_worker (Dynamic Ptr False) (Dynamic Ptr False))) = Returned False
   \<and> IsNil (taskEventHandler (sample_worker (Dynamic Ptr False) (Dynamic Ptr False))) = Returned False
   \<and> OnTaskSuccess (sample_worker NilInterface (Dynamic Ptr True)) (sample_task ''echo'') =
       ([Logged (LogTaskSuccess ''echo'')], Returned ())
   \<and> OnTaskError (sample_worker NilInterface (Dynamic Ptr True)) (sample_task ''echo'')
         (External ''failed'') =
       ([Logged (LogError (External ''failed''))], Returned ())
   \<and> OnStartWorker (sample_worker NilInterface (Dynamic Ptr True)) =
       ([Logged LogWorkerStarted], Returned ())
   \<and> OnTaskSuccess (sample_worker (Dynamic Ptr False) (Dynamic Ptr False)) (sample_task ''echo'') =
       ([Logged (LogTaskSuccess ''echo''), Outcome (TaskSuccess (sample_task ''echo''))], Returned ())
   \<and> OnStartWorker (sample_worker (Dynamic Ptr False) (Dynamic Ptr False)) =
       ([Logged LogWorkerStarted, Signal StartWorker], Returned ())"
proof -
  have a: "IsNil (worker_eventHandler (sample_worker NilInterface (Dynamic Ptr True))) = Returned True"
    by (simp add: sample_worker_def)
  have b: "IsNil (taskEventHandler (sample_worker NilInterface (Dynamic Ptr True))) = Returned True"
    by (simp add: sample_worker_def)
  have c: "IsNil (worker_eventHandler (sample_worker (Dynamic Ptr False) (Dynamic Ptr False))) = Returned False"
    by (simp add: sample_worker_def)
  have d: "IsNil (taskEventHandler (sample_worker (Dynamic Ptr False) (Dynamic Ptr False))) = Returned False"
    by (simp add: sample_worker_def)
  have n: "Name (sample_task ''echo'') = ''echo''"
    by (simp add: sample_task_def)
  from no_sink_log_only [of "sample_worker NilInterface (Dynamic Ptr True)" "sample_task ''echo''" 1
      "[]" "External ''failed''"]
    no_sink_log_only [of "sample_worker (Dynamic Ptr False) (Dynamic Ptr False)"
      "sample_task ''echo''" 1 "[]" "External ''failed''"] a b c d
  show ?thesis
    by (simp add: n)
qed

text \<open>\<open>NewWorker\<close> panics exactly when the concurrency in force is negative.\<close>

lemma NewWorker_panics:
  "NewWorker g cfg conn = Panicked \<longleftrightarrow>
     Concurrency (case cfg of None \<Rightarrow> Worker_NewConfiguration g | Some c \<Rightarrow> c) < 0"
  by (auto simp: NewWorker_def make_chan_def Let_def split: option.splits)




section \<open>Shutdown of the pool\<close>

lemma step_decreases: "step w m s = Some s' \<Longrightarrow> remaining w s' < remaining w s"
  by (cases m; cases "supervisor s")
     (auto simp: step_def remaining_def split: if_splits)

lemma run_bounded: "run w ms s = Some s' \<Longrightarrow> length ms + remaining w s' \<le> remaining w s"
proof (induction ms arbitrary: s)
  case Nil
  then show ?case by simp
next
  case (Cons m ms)
  then obtain s1 where s1: "step w m s = Some s1" and r: "run w ms s1 = Some s'"
    by (auto split: option.splits)
  from Cons.IH [OF r] step_decreases [OF s1] show ?case by simp
qed

lemma synchronised_step:
  assumes "synchronised s" and "step w m s = Some s'" and "snd (OnEndWorker w) = Returned ()"
  shows "synchronised s'"
  using assms
  by (cases m; cases "caller s"; cases "supervisor s";
      clarsimp simp: step_def synchronised_def send_def receive_def split: if_splits)

lemma buffered_step:
  assumes "buffered w s" and "step w m s = Some s'"
  shows "buffered w s'"
  using assms
  by (cases m; cases "supervisor s")
     (auto simp: step_def buffered_def send_def receive_def can_send_def can_receive_def
        split: if_splits)

lemma recorded_step:
  assumes "recorded w s" and "synchronised s" and "step w m s = Some s'"
  shows "recorded w s'"
  using assms
  by (cases m; cases "caller s"; cases "supervisor s";
      clarsimp simp: step_def recorded_def script_def synchronised_def
        split: if_splits option.splits)

lemma invariants_run:
  assumes "run w ms s = Some s'" and "snd (OnEndWorker w) = Returned ()"
    and "synchronised s" and "buffered w s" and "recorded w s"
  shows "synchronised s' \<and> buffered w s' \<and> recorded w s'"
  using assms
proof (induction ms arbitrary: s)
  case Nil
  then show ?case by simp
next
  case (Cons m ms)
  then obtain s1 where s1: "step w m s = Some s1" and r: "run w ms s1 = Some s'"
    by (auto split: option.splits)
  show ?case
    using Cons.IH [OF r Cons.prems(2) synchronised_step [OF Cons.prems(3) s1 Cons.prems(2)]
        buffered_step [OF Cons.prems(4) s1] recorded_step [OF Cons.prems(5) Cons.prems(3) s1]] .
qed

text \<open>
  Until \<open>StopWorker\<close> has returned, the caller or the supervisor can move without any
  task routine: the signal channel has room for every signal of the loop, and the wait
  can always time out.
\<close>

lemma progress:
  assumes sy: "synchronised s" and bu: "buffered w s" and nr: "caller s \<noteq> StopReturned"
  shows "\<exists>m \<in> set own_moves. step w m s \<noteq> None"
proof (cases "supervisor s = SupSignal \<and> sent s < Concurrency (worker_config w)")
  case True
  with sy bu have "can_send (quit_signals s)"
    by (auto simp: synchronised_def buffered_def can_send_def)
  with True sy have "step w SendSignal s \<noteq> None"
    by (simp add: step_def synchronised_def)
  then show ?thesis by (auto simp: own_moves_def)
next
  case False
  with sy nr show ?thesis
    by (cases "caller s"; cases "supervisor s")
       (auto simp: step_def synchronised_def own_moves_def)
qed

lemma OnEndWorker_returns:
  "IsNil (worker_eventHandler w) \<noteq> Panicked \<Longrightarrow> snd (OnEndWorker w) = Returned ()"
  by (cases "IsNil (worker_eventHandler w)")
     (auto simp: OnEndWorker_def andThen_def say_def notify_def split: bool.splits)

text \<open>
  The wait happens once. After it the supervisor keeps what the wait returned; before it
  nothing has been returned, and what is returned is the timeout error exactly when the
  schedule has the wait time out.
\<close>

lemma past_wait_step:
  assumes "step w m s = Some s'" and "supervisor_rank (supervisor s) \<le> 3"
  shows "supervisor_rank (supervisor s') \<le> 3 \<and> wait_error s' = wait_error s \<and> m \<noteq> WaitTimedOut"
  using assms
  by (cases m; cases "supervisor s") (auto simp: step_def split: if_splits)

lemma past_wait_run:
  "run w ms s = Some s' \<Longrightarrow> supervisor_rank (supervisor s) \<le> 3 \<Longrightarrow>
     wait_error s' = wait_error s \<and> WaitTimedOut \<notin> set ms"
proof (induction ms arbitrary: s)
  case Nil
  then show ?case by simp
next
  case (Cons m ms)
  then obtain s1 where s1: "step w m s = Some s1" and r: "run w ms s1 = Some s'"
    by (auto split: option.splits)
  from past_wait_step [OF s1 Cons.prems(2)] Cons.IH [OF r] show ?case by auto
qed

lemma before_wait_step:
  assumes "step w m s = Some s'" and "4 \<le> supervisor_rank (supervisor s)"
    and "wait_error s = None"
  shows "(m = WaitTimedOut \<and> supervisor_rank (supervisor s') \<le> 3
            \<and> wait_error s' = Some (WorkerWaitTimeoutError (WaitTaskThreadsToClose (worker_config w))))
         \<or> (m \<noteq> WaitTimedOut \<and> wait_error s' = None)"
  using assms
  by (cases m; cases "supervisor s") (auto simp: step_def split: if_splits)

lemma wait_outcome:
  "run w ms s = Some s' \<Longrightarrow> 4 \<le> supervisor_rank (supervisor s) \<Longrightarrow> wait_error s = None \<Longrightarrow>
     wait_error s' =
       (if WaitTimedOut \<in> set ms
        then Some (WorkerWaitTimeoutError (WaitTaskThreadsToClose (worker_config w))) else None)"
proof (induction ms arbitrary: s)
  case Nil
  then show ?case by simp
next
  case (Cons m ms)
  then obtain s1 where s1: "step w m s = Some s1" and r: "run w ms s1 = Some s'"
    by (auto split: option.splits)
  show ?case
  proof (cases "m = WaitTimedOut")
    case True
    with before_wait_step [OF s1 Cons.prems(2,3)] past_wait_run [OF r] show ?thesis
      by simp
  next
    case False
    with before_wait_step [OF s1 Cons.prems(2,3)] have n1: "wait_error s1 = None" by simp
    show ?thesis
    proof (cases "4 \<le> supervisor_rank (supervisor s1)")
      case True
      from Cons.IH [OF r True n1] False show ?thesis by simp
    next
      case low: False
      then have "supervisor_rank (supervisor s1) \<le> 3" by simp
      from past_wait_run [OF r this] n1 False show ?thesis by simp
    qed
  qed
qed

text \<open>
  Claim C8. Take a worker as \<open>NewWorker\<close> builds it, with any sinks whose test does not
  panic, and any number of task routines, and stop it once. Whatever the schedule, and
  whether or not the routines return: nothing panics; the run is bounded; as long as
  \<open>StopWorker\<close> has not returned, the caller or the supervisor has a move that waits for
  no routine, so \<open>stopTaskThreads\<close> completes and the handshake finishes. When
  \<open>StopWorker\<close> has returned, the effects are these and no others: the two log lines of
  stopping, the timeout error in the log exactly when the wait timed out, the
  supervisor's acknowledgment, and the end-of-worker emission once the supervisor is
  done. The timeout error is logged and goes nowhere else.
\<close>

theorem shutdown_timeout_only_logged:
  assumes built: "NewWorker g cfg conn = Returned (w0, c)"
    and sinks: "w = w0\<lparr>taskEventHandler := a, worker_eventHandler := b\<rparr>"
    and sound: "IsNil b \<noteq> Panicked"
    and run: "run w ms (initial w n) = Some s"
  shows "\<not> crashed s
     \<and> length ms \<le> 13 + nat (Concurrency (worker_config w)) + n
     \<and> (caller s \<noteq> StopReturned \<longrightarrow> (\<exists>m \<in> set own_moves. step w m s \<noteq> None))
     \<and> (caller s = StopReturned \<longrightarrow>
          seen s =
            [Logged LogWorkerStopping,
             Logged (LogTaskThreadsStopping (Concurrency (worker_config w)))]
            @ (if WaitTimedOut \<in> set ms
               then [Logged (LogError (WorkerWaitTimeoutError
                       (WaitTaskThreadsToClose (worker_config w))))]
               else [])
            @ [QuitAck]
            @ (if supervisor s = SupDone then fst (OnEndWorker w) else []))"
proof -
  from built sinks have fresh:
    "buffer (taskQueueQuit w) = []" "\<not> closed (taskQueueQuit w)"
    "capacity (taskQueueQuit w) = nat (Concurrency (worker_config w))"
    "\<not> closed (taskQueue w)" "\<not> closed (quit w)"
    by (auto simp: NewWorker_def make_chan_def Let_def split: if_splits)
  have i1: "synchronised (initial w n)"
    using fresh by (simp add: synchronised_def initial_def)
  have i2: "buffered w (initial w n)"
    using fresh by (simp add: buffered_def initial_def)
  have i3: "recorded w (initial w n)"
    by (simp add: recorded_def script_def initial_def)
  have ret: "snd (OnEndWorker w) = Returned ()"
    using sound sinks by (intro OnEndWorker_returns) simp
  from invariants_run [OF run ret i1 i2 i3]
  have sy: "synchronised s" and bu: "buffered w s" and re: "recorded w s" by simp_all
  have bound: "length ms \<le> 13 + nat (Concurrency (worker_config w)) + n"
    using run_bounded [OF run] by (simp add: remaining_def initial_def)
  have we: "wait_error s =
       (if WaitTimedOut \<in> set ms
        then Some (WorkerWaitTimeoutError (WaitTaskThreadsToClose (worker_config w))) else None)"
    using wait_outcome [OF run] by (simp add: initial_def)
  have fin: "seen s =
            [Logged LogWorkerStopping,
             Logged (LogTaskThreadsStopping (Concurrency (worker_config w)))]
            @ (if WaitTimedOut \<in> set ms
               then [Logged (LogError (WorkerWaitTimeoutError
                       (WaitTaskThreadsToClose (worker_config w))))]
               else [])
            @ [QuitAck]
            @ (if supervisor s = SupDone then fst (OnEndWorker w) else [])"
    if "caller s = StopReturned"
    using that sy re we
    by (cases "supervisor s") (auto simp: synchronised_def recorded_def script_def)
  show ?thesis
    using sy bound progress [OF sy bu] fin
    by (auto simp: synchronised_def)
qed

theorem shutdown_timeout_only_logged_witness:
  "NewWorker 4 (Some (sample_configuration 2)) no_connector =
     Returned (sample_worker NilInterface NilInterface,
       \<lparr>conn_taskQueue = Some \<lparr>capacity = 2, buffer = [], closed = False\<rparr>,
        conn_taskEventChannel = None\<rparr>)
   \<and> IsNil NilInterface \<noteq> Panicked
   \<and> run (sample_worker (Dynamic Ptr False) NilInterface) sample_schedule
         (initial (sample_worker (Dynamic Ptr False) NilInterface) 2) =
       Some \<lparr>caller = StopReturned, supervisor = SupDone, sent = 2,
             quit_signals = \<lparr>capacity = 2, buffer = [True], closed = False\<rparr>,
             alive = 1, queue_closed = True, quit_closed = True,
             wait_error = Some (WorkerWaitTimeoutError 30000000000), crashed = False,
             seen = [Logged LogWorkerStopping, Logged (LogTaskThreadsStopping 2),
                     Logged (LogError (WorkerWaitTimeoutError 30000000000)), QuitAck,
                     Logged LogWorkerEnded]\<rparr>
   \<and> length sample_schedule \<le> 13 + nat (Concurrency (sample_configuration 2)) + 2"
proof -
  let ?w = "sample_worker (Dynamic Ptr False) NilInterface"
  let ?s = "\<lparr>caller = StopReturned, supervisor = SupDone, sent = 2,
             quit_signals = \<lparr>capacity = 2, buffer = [True], closed = False\<rparr>,
             alive = 1, queue_closed = True, quit_closed = True,
             wait_error = Some (WorkerWaitTimeoutError 30000000000), crashed = False,
             seen = [Logged LogWorkerStopping, Logged (LogTaskThreadsStopping 2),
                     Logged (LogError (WorkerWaitTimeoutError 30000000000)), QuitAck,
                     Logged LogWorkerEnded]\<rparr>"
  have a: "NewWorker 4 (Some (sample_configuration 2)) no_connector =
     Returned (sample_worker NilInterface NilInterface,
       \<lparr>conn_taskQueue = Some \<lparr>capacity = 2, buffer = [], closed = False\<rparr>,
        conn_taskEventChannel = None\<rparr>)"
    by (simp add: NewWorker_def make_chan_def sample_configuration_def sample_worker_def
        no_connector_def)
  have b: "?w = (sample_worker NilInterface NilInterface)
                  \<lparr>taskEventHandler := Dynamic Ptr False, worker_eventHandler := NilInterface\<rparr>"
    by (simp add: sample_worker_def)
  have c: "IsNil NilInterface \<noteq> Panicked" by simp
  have d: "run ?w sample_schedule (initial ?w 2) = Some ?s"
    by (simp add: sample_schedule_def initial_def step_def sample_worker_def
        sample_configuration_def can_send_def send_def can_receive_def receive_def
        OnEndWorker_def andThen_def say_def notify_def)
  have e: "worker_config ?w = sample_configuration 2"
    by (simp add: sample_worker_def)
  from shutdown_timeout_only_logged [OF a b c d, THEN conjunct2, THEN conjunct1]
  have f: "length sample_schedule \<le> 13 + nat (Concurrency (sample_configuration 2)) + 2"
    by (simp only: e)
  from a c d f show ?thesis by blast
qed

end
